theory Spec2Isabelle
  imports Main "HOL-Library.Multiset"
begin

section \<open>JavaScript values\<close>

text \<open>
  The generator (\<^verbatim>\<open>src/index.js\<close>) works on a parsed Swagger/OpenAPI document, that is
  on the values \<^verbatim>\<open>JSON.parse\<close> returns: \<^verbatim>\<open>null\<close>, booleans, numbers, strings, arrays
  and plain objects.  The code is untyped and tests these values with \<^verbatim>\<open>in\<close>,
  truthiness and \<^verbatim>\<open>===\<close>, so the model keeps one type of values:

  \<^item> a string is a \<^typ>\<open>string\<close>: a list of code units, here the ones below 256;
  \<^item> a number is carried as the text \<^verbatim>\<open>Number.prototype.toString\<close> gives it; the program
    never calculates with a number, it only tests it for truthiness and prints it;
  \<^item> an object is the list of its own properties in the order \<^verbatim>\<open>Object.keys\<close>
    reports them, keys pairwise distinct;
  \<^item> \<open>JBuiltin n\<close> is the member \<open>n\<close> that every object literal inherits from
    \<^verbatim>\<open>Object.prototype\<close> (a function, or for \<^verbatim>\<open>__proto__\<close> the prototype object);
    no document holds one, but a lookup in the table \<^verbatim>\<open>typeMapping\<close> can return one.

  An exception is a value: \<open>error\<close> holds what the language throws in this program, a
  \<^verbatim>\<open>TypeError\<close> (a property read on \<^verbatim>\<open>undefined\<close> or \<^verbatim>\<open>null\<close>, \<^verbatim>\<open>in\<close> on a value that is
  no object, a call of something that is no function) or a \<^verbatim>\<open>RangeError\<close> (a recursion of
  built-in functions that does not end).  The one \<^verbatim>\<open>throw\<close> statement of the
  engine, \<^verbatim>\<open>throw new Error("There is no definition")\<close>, stands in \<^verbatim>\<open>generatorArray\<close>, and
  \<open>generator_error\<close> is what that function can end with.
\<close>

datatype jsval = JUndefined | JNull | JBool bool | JNum string | JStr string
  | JArr "jsval list" | JObj "(string \<times> jsval) list" | JBuiltin string

datatype error = TypeError | RangeError

datatype generator_error = NoDefinition | Thrown error

abbreviation dquote :: char where "dquote \<equiv> CHR 0x22"
abbreviation squote :: char where "squote \<equiv> CHR 0x27"
abbreviation backslash :: char where "backslash \<equiv> CHR 0x5C"

fun try_map :: "('a \<Rightarrow> error + 'b) \<Rightarrow> 'a list \<Rightarrow> error + 'b list" where
  "try_map f [] = Inr []"
| "try_map f (x # xs) =
     (case f x of Inl e \<Rightarrow> Inl e
      | Inr y \<Rightarrow> (case try_map f xs of Inl e \<Rightarrow> Inl e | Inr ys \<Rightarrow> Inr (y # ys)))"

lemma try_map_cong [fundef_cong]:
  "xs = ys \<Longrightarrow> (\<And>x. x \<in> set ys \<Longrightarrow> f x = g x) \<Longrightarrow> try_map f xs = try_map g ys"
  by (induction ys arbitrary: xs) (auto split: sum.splits)

text \<open>\<^verbatim>\<open>Array.prototype.join\<close> on strings.\<close>

fun join :: "string \<Rightarrow> string list \<Rightarrow> string" where
  "join sep [] = []"
| "join sep [x] = x"
| "join sep (x # y # ys) = x @ sep @ join sep (y # ys)"

text \<open>Truthiness (\<^verbatim>\<open>ToBoolean\<close>).\<close>

fun truthy :: "jsval \<Rightarrow> bool" where
  "truthy JUndefined = False"
| "truthy JNull = False"
| "truthy (JBool b) = b"
| "truthy (JNum s) = (s \<noteq> ''0'' \<and> s \<noteq> ''NaN'')"
| "truthy (JStr s) = (s \<noteq> [])"
| "truthy (JArr xs) = True"
| "truthy (JObj kvs) = True"
| "truthy (JBuiltin n) = True"

text \<open>
  \<open>get v name\<close> is the property read \<^verbatim>\<open>v.name\<close> for the names the program reads
  (\<^verbatim>\<open>type\<close>, \<^verbatim>\<open>items\<close>, \<^verbatim>\<open>$ref\<close>, \<^verbatim>\<open>properties\<close>, ...): none of them is a member of a
  built-in prototype, so the read finds an own property of an object or nothing.
  Reading a property of \<^verbatim>\<open>undefined\<close> or \<^verbatim>\<open>null\<close> throws.
\<close>

fun get :: "jsval \<Rightarrow> string \<Rightarrow> error + jsval" where
  "get JUndefined name = Inl TypeError"
| "get JNull name = Inl TypeError"
| "get (JObj kvs) name = Inr (case map_of kvs name of None \<Rightarrow> JUndefined | Some v \<Rightarrow> v)"
| "get v name = Inr JUndefined"

text \<open>\<open>has name v\<close> is \<^verbatim>\<open>name in v\<close>, for the same names: a \<^verbatim>\<open>TypeError\<close> unless \<open>v\<close>
  is an object.\<close>

fun has :: "string \<Rightarrow> jsval \<Rightarrow> error + bool" where
  "has name (JObj kvs) = Inr (name \<in> fst ` set kvs)"
| "has name (JArr xs) = Inr False"
| "has name (JBuiltin n) = Inr False"
| "has name v = Inl TypeError"

text \<open>
  The members of \<^verbatim>\<open>Object.prototype\<close>, and the text \<^verbatim>\<open>ToString\<close> gives each (V8 prints a
  native function this way).
\<close>

definition object_prototype_names :: "string list" where
  "object_prototype_names =
     [''constructor'', ''__defineGetter__'', ''__defineSetter__'', ''hasOwnProperty'',
      ''__lookupGetter__'', ''__lookupSetter__'', ''isPrototypeOf'',
      ''propertyIsEnumerable'', ''toString'', ''valueOf'', ''__proto__'',
      ''toLocaleString'']"

definition builtin_text :: "string \<Rightarrow> string" where
  "builtin_text n =
     (if n = ''__proto__'' then ''[object Object]''
      else ''function '' @ (if n = ''constructor'' then ''Object'' else n)
           @ ''() { [native code] }'')"

text \<open>
  \<^verbatim>\<open>ToString\<close>, as a template literal and a computed property key apply it.  An array
  prints its elements joined by commas, \<^verbatim>\<open>undefined\<close> and \<^verbatim>\<open>null\<close> as nothing.  An object
  prints as \<^verbatim>\<open>[object Object]\<close> through the inherited \<^verbatim>\<open>toString\<close>; an own property
  \<^verbatim>\<open>toString\<close> of a parsed document is no function, and then the conversion throws.
\<close>

fun to_string :: "jsval \<Rightarrow> error + string" where
  "to_string JUndefined = Inr ''undefined''"
| "to_string JNull = Inr ''null''"
| "to_string (JBool b) = Inr (if b then ''true'' else ''false'')"
| "to_string (JNum s) = Inr s"
| "to_string (JStr s) = Inr s"
| "to_string (JArr xs) =
     (case try_map (\<lambda>x. if x = JUndefined \<or> x = JNull then Inr [] else to_string x) xs of
        Inl e \<Rightarrow> Inl e
      | Inr ss \<Rightarrow> Inr (join '','' ss))"
| "to_string (JObj kvs) =
     (if ''toString'' \<in> fst ` set kvs then Inl TypeError else Inr ''[object Object]'')"
| "to_string (JBuiltin n) = Inr (builtin_text n)"

text \<open>\<^verbatim>\<open>Array.prototype.join\<close> on values: \<^verbatim>\<open>undefined\<close> and \<^verbatim>\<open>null\<close> give the empty
  string, every other element its \<^verbatim>\<open>ToString\<close>.\<close>

definition join_values :: "string \<Rightarrow> jsval list \<Rightarrow> error + string" where
  "join_values sep xs =
     (case try_map (\<lambda>x. if x = JUndefined \<or> x = JNull then Inr [] else to_string x) xs of
        Inl e \<Rightarrow> Inl e
      | Inr ss \<Rightarrow> Inr (join sep ss))"

subsection \<open>Own properties and their order\<close>

definition digit_char :: "nat \<Rightarrow> char" where
  "digit_char d = char_of (48 + d)"

fun dec :: "nat \<Rightarrow> string" where
  "dec n = (if n < 10 then [digit_char n] else dec (n div 10) @ [digit_char (n mod 10)])"

declare dec.simps [simp del]

text \<open>
  \<^verbatim>\<open>Object.keys\<close> and \<^verbatim>\<open>Object.values\<close> read the own enumerable properties: of an object
  its properties, of an array its elements under their indices, of a string its characters
  under theirs, of a number, a boolean or a built-in none.  Both throw on \<^verbatim>\<open>undefined\<close>
  and \<^verbatim>\<open>null\<close>.
\<close>

fun own_entries :: "jsval \<Rightarrow> error + (string \<times> jsval) list" where
  "own_entries JUndefined = Inl TypeError"
| "own_entries JNull = Inl TypeError"
| "own_entries (JObj kvs) = Inr kvs"
| "own_entries (JArr xs) = Inr (zip (map dec [0 ..< length xs]) xs)"
| "own_entries (JStr s) = Inr (zip (map dec [0 ..< length s]) (map (\<lambda>c. JStr [c]) s))"
| "own_entries v = Inr []"

text \<open>
  An array index is the canonical decimal text of an integer below \<open>2^32 - 1\<close>.  An
  object lists its array-index keys first, in ascending order, and then every other key
  in the order of insertion.
\<close>

definition is_digit :: "char \<Rightarrow> bool" where
  "is_digit c = (48 \<le> (of_char c :: nat) \<and> (of_char c :: nat) \<le> 57)"

definition dec_val :: "string \<Rightarrow> int" where
  "dec_val s = foldl (\<lambda>a c. 10 * a + (of_char c - 48)) 0 s"

definition is_array_index :: "string \<Rightarrow> bool" where
  "is_array_index s =
     (s \<noteq> [] \<and> list_all is_digit s \<and> (length s = 1 \<or> hd s \<noteq> CHR ''0'')
      \<and> dec_val s < 4294967295)"

fun insert_index :: "string \<Rightarrow> 'v \<Rightarrow> (string \<times> 'v) list \<Rightarrow> (string \<times> 'v) list" where
  "insert_index k v [] = [(k, v)]"
| "insert_index k v ((k', v') # kvs) =
     (if is_array_index k' \<and> dec_val k' < dec_val k then (k', v') # insert_index k v kvs
      else (k, v) # (k', v') # kvs)"

text \<open>
  \<open>obj_set kvs k v\<close> is the assignment \<^verbatim>\<open>target[k] = v\<close> that \<^verbatim>\<open>Object.assign\<close> performs on
  a target created by \<^verbatim>\<open>{}\<close>.  An existing key keeps its place and takes the new value; a
  new key is entered in the order above.  The key \<^verbatim>\<open>__proto__\<close> is the inherited accessor:
  the assignment calls its setter and creates no property.
\<close>

definition obj_set :: "(string \<times> 'v) list \<Rightarrow> string \<Rightarrow> 'v \<Rightarrow> (string \<times> 'v) list" where
  "obj_set kvs k v =
     (if k = ''__proto__'' then kvs
      else if k \<in> fst ` set kvs then map (\<lambda>(k', v'). if k' = k then (k', v) else (k', v')) kvs
      else if is_array_index k then insert_index k v kvs
      else kvs @ [(k, v)])"

text \<open>\<^verbatim>\<open>Object.assign({}, s1, s2, ...)\<close> where every source \<^verbatim>\<open>{[k]: v}\<close> has one property.\<close>

definition object_assign :: "(string \<times> 'v) list \<Rightarrow> (string \<times> 'v) list" where
  "object_assign sources = foldl (\<lambda>target (k, v). obj_set target k v) [] sources"

subsection \<open>\<^verbatim>\<open>JSON.stringify\<close>\<close>

definition hex_digit :: "nat \<Rightarrow> char" where
  "hex_digit d = ''0123456789abcdef'' ! d"

definition json_escape :: "char \<Rightarrow> string" where
  "json_escape c =
     (let n = (of_char c :: nat) in
      if c = dquote then [backslash, dquote]
      else if c = backslash then [backslash, backslash]
      else if n = 8 then [backslash, CHR ''b'']
      else if n = 9 then [backslash, CHR ''t'']
      else if n = 10 then [backslash, CHR ''n'']
      else if n = 12 then [backslash, CHR ''f'']
      else if n = 13 then [backslash, CHR ''r'']
      else if n < 32 then [backslash, CHR ''u'', CHR ''0'', CHR ''0'',
                           hex_digit (n div 16), hex_digit (n mod 16)]
      else [c])"

definition json_quote :: "string \<Rightarrow> string" where
  "json_quote s = dquote # concat (map json_escape s) @ [dquote]"

text \<open>
  \<^verbatim>\<open>JSON.stringify\<close> calls the member \<^verbatim>\<open>toJSON\<close> of an object when that is a function,
  with the object as \<^verbatim>\<open>this\<close> and the key under which the object stands as the argument,
  and writes the result in place of the object.  The functions a value of this program
  can hold are the members of \<^verbatim>\<open>Object.prototype\<close> (and the accessor functions of
  \<^verbatim>\<open>__proto__\<close>, which \<^verbatim>\<open>__lookupGetter__\<close> and \<^verbatim>\<open>__lookupSetter__\<close> return).
\<close>

text \<open>
  \<open>call_member n kvs argument\<close> is the call of the function \<open>n\<close>, any but
  \<^verbatim>\<open>toLocaleString\<close>, on an object with the own properties \<open>kvs\<close> as \<^verbatim>\<open>this\<close>; the
  argument is a string or \<^verbatim>\<open>undefined\<close>, and the functions that take a property key read
  \<^verbatim>\<open>undefined\<close> as the key \<^verbatim>\<open>"undefined"\<close>.  Every own property is enumerable.
  \<^verbatim>\<open>Object(s)\<close> is a \<^verbatim>\<open>String\<close> object, which \<^verbatim>\<open>JSON.stringify\<close> writes as the string \<open>s\<close>
  it wraps, and \<^verbatim>\<open>Object(undefined)\<close> a new object with no property.
  \<^verbatim>\<open>__defineGetter__\<close> and \<^verbatim>\<open>__defineSetter__\<close> throw, since their second argument is no
  function.
\<close>

definition call_member :: "string \<Rightarrow> (string \<times> jsval) list \<Rightarrow> jsval \<Rightarrow> error + jsval" where
  "call_member n kvs argument =
     (let key = (case argument of JStr s \<Rightarrow> s | _ \<Rightarrow> ''undefined'');
          own = (key \<in> fst ` set kvs)
      in if n = ''constructor'' then Inr (case argument of JStr s \<Rightarrow> JStr s | _ \<Rightarrow> JObj [])
         else if n = ''__defineGetter__'' \<or> n = ''__defineSetter__'' then Inl TypeError
         else if n = ''hasOwnProperty'' \<or> n = ''propertyIsEnumerable'' then Inr (JBool own)
         else if n = ''__lookupGetter__''
           then Inr (if \<not> own \<and> key = ''__proto__'' then JBuiltin ''get __proto__'' else JUndefined)
         else if n = ''__lookupSetter__''
           then Inr (if \<not> own \<and> key = ''__proto__'' then JBuiltin ''set __proto__'' else JUndefined)
         else if n = ''isPrototypeOf'' then Inr (JBool False)
         else if n = ''toString'' then Inr (JStr ''[object Object]'')
         else if n = ''valueOf'' then Inr (JObj kvs)
         else if n = ''get __proto__'' then Inr (JBuiltin ''__proto__'')
         else Inr JUndefined)"

text \<open>
  \<^verbatim>\<open>toLocaleString\<close> calls the member \<^verbatim>\<open>toString\<close> of \<^verbatim>\<open>this\<close> with no argument: the
  inherited one, or an own property, which has to be a function; when that is
  \<^verbatim>\<open>toLocaleString\<close> again the calls do not end and the engine throws a \<^verbatim>\<open>RangeError\<close>.
\<close>

definition call_builtin :: "string \<Rightarrow> (string \<times> jsval) list \<Rightarrow> jsval \<Rightarrow> error + jsval" where
  "call_builtin n kvs argument =
     (if n = ''toLocaleString'' then
        (case map_of kvs ''toString'' of
           None \<Rightarrow> Inr (JStr ''[object Object]'')
         | Some (JBuiltin m) \<Rightarrow>
             if m = ''__proto__'' then Inl TypeError
             else if m = ''toLocaleString'' then Inl RangeError
             else call_member m kvs JUndefined
         | Some _ \<Rightarrow> Inl TypeError)
      else call_member n kvs argument)"

text \<open>
  The value \<^verbatim>\<open>JSON.stringify\<close> writes for an object that stands under \<open>key\<close>: \<open>None\<close> is
  the object itself (it has no function \<^verbatim>\<open>toJSON\<close>, or the function returned it), and
  \<open>Some r\<close> the value the function returned in its place.
\<close>

definition toJSON_value :: "string \<Rightarrow> (string \<times> jsval) list \<Rightarrow> error + jsval option" where
  "toJSON_value key kvs =
     (case map_of kvs ''toJSON'' of
        Some (JBuiltin n) \<Rightarrow>
          if n = ''__proto__'' then Inr None
          else (case call_builtin n kvs (JStr key) of
                  Inl e \<Rightarrow> Inl e
                | Inr r \<Rightarrow> Inr (if r = JObj kvs then None else Some r))
      | _ \<Rightarrow> Inr None)"

text \<open>
  The text of a value that has no members to write; \<open>None\<close> is the result \<^verbatim>\<open>undefined\<close>,
  which \<^verbatim>\<open>undefined\<close> and a function have.  The prototype object has no enumerable
  property, and the one object \<open>toJSON_value\<close> gives is the new object with no property.
\<close>

fun plain_text :: "jsval \<Rightarrow> string option" where
  "plain_text JUndefined = None"
| "plain_text JNull = Some ''null''"
| "plain_text (JBool b) = Some (if b then ''true'' else ''false'')"
| "plain_text (JNum s) =
     Some (if s = ''Infinity'' \<or> s = ''-Infinity'' \<or> s = ''NaN'' then ''null'' else s)"
| "plain_text (JStr s) = Some (json_quote s)"
| "plain_text (JArr xs) = Some ''[]''"
| "plain_text (JObj kvs) = Some ''{}''"
| "plain_text (JBuiltin n) = (if n = ''__proto__'' then Some ''{}'' else None)"

text \<open>
  \<open>serialize key v\<close> is the text of the value \<open>v\<close> that stands under \<open>key\<close> in its
  holder (\<^verbatim>\<open>SerializeJSONProperty\<close>).  An object leaves out the properties whose value has
  no text, an array prints \<^verbatim>\<open>null\<close> for them; an element of an array stands under its
  index.  \<open>stringify v\<close> is \<^verbatim>\<open>JSON.stringify(v)\<close>, where the value stands under the empty
  key.
\<close>

lemma elem_size: "x \<in> set xs \<Longrightarrow> size x < Suc (size_list size xs)"
  by (induction xs) auto

lemma entry_size: "(k, v) \<in> set kvs \<Longrightarrow> size v < Suc (size_list (size_prod (\<lambda>x. 0) size) kvs)"
  by (induction kvs) auto

function serialize :: "string \<Rightarrow> jsval \<Rightarrow> error + string option" where
  "serialize key (JArr xs) =
     (case try_map (\<lambda>(k, x). serialize k x) (zip (map dec [0 ..< length xs]) xs) of
        Inl e \<Rightarrow> Inl e
      | Inr ts \<Rightarrow>
          Inr (Some (''['' @ join '','' (map (\<lambda>t. case t of None \<Rightarrow> ''null'' | Some j \<Rightarrow> j) ts)
                     @ '']'')))"
| "serialize key (JObj kvs) =
     (case toJSON_value key kvs of
        Inl e \<Rightarrow> Inl e
      | Inr (Some r) \<Rightarrow> Inr (plain_text r)
      | Inr None \<Rightarrow>
          (case try_map (\<lambda>(k, v). case serialize k v of
                                    Inl e \<Rightarrow> Inl e
                                  | Inr None \<Rightarrow> Inr []
                                  | Inr (Some j) \<Rightarrow> Inr [json_quote k @ '':'' @ j]) kvs of
             Inl e \<Rightarrow> Inl e
           | Inr ts \<Rightarrow> Inr (Some (''{'' @ join '','' (concat ts) @ ''}''))))"
| "serialize key JUndefined = Inr (plain_text JUndefined)"
| "serialize key JNull = Inr (plain_text JNull)"
| "serialize key (JBool b) = Inr (plain_text (JBool b))"
| "serialize key (JNum s) = Inr (plain_text (JNum s))"
| "serialize key (JStr s) = Inr (plain_text (JStr s))"
| "serialize key (JBuiltin n) = Inr (plain_text (JBuiltin n))"
  by pat_completeness auto
termination
  by (relation "measure (\<lambda>(key, v). size v)") (auto dest: set_zip_rightD elem_size entry_size)

definition stringify :: "jsval \<Rightarrow> error + string option" where
  "stringify v = serialize [] v"


section \<open>Strings: the regular expressions of the program\<close>

text \<open>
  \<^verbatim>\<open>/#\/definitions\/(.*)|#\/components\/schemas\/(.*)/\<close> is not anchored: the match is
  the leftmost place where one of the two prefixes stands, the first alternative tried
  first.  A group captures up to the next line terminator; the group of the alternative
  that did not match is \<^verbatim>\<open>undefined\<close>.
\<close>

definition dot_star :: "string \<Rightarrow> string" where
  "dot_star s = takeWhile (\<lambda>c. c \<noteq> CHR 0x0A \<and> c \<noteq> CHR 0x0D) s"

fun ref_match :: "string \<Rightarrow> (jsval \<times> jsval) option" where
  "ref_match [] = None"
| "ref_match (c # cs) =
     (if take 14 (c # cs) = ''#/definitions/''
        then Some (JStr (dot_star (drop 14 (c # cs))), JUndefined)
      else if take 21 (c # cs) = ''#/components/schemas/''
        then Some (JUndefined, JStr (dot_star (drop 21 (c # cs))))
      else ref_match cs)"

text \<open>\<^verbatim>\<open>value.replace(/"/g, "")\<close>; the receiver is the result of \<^verbatim>\<open>propertiesTemplate\<close>, and
  the call throws when that is \<^verbatim>\<open>undefined\<close>.\<close>

definition replace_dquotes :: "jsval \<Rightarrow> error + string" where
  "replace_dquotes v =
     (case v of JStr s \<Rightarrow> Inr (filter (\<lambda>c. c \<noteq> dquote) s) | _ \<Rightarrow> Inl TypeError)"

text \<open>\<^verbatim>\<open>.replace(/{[^|]/g, "{|")\<close> and \<^verbatim>\<open>.replace(/[^|]}/g, "|}")\<close>: a match takes two
  characters, and the search goes on behind it.\<close>

fun replace_open :: "string \<Rightarrow> string" where
  "replace_open (a # b # s) =
     (if a = CHR ''{'' \<and> b \<noteq> CHR ''|'' then ''{|'' @ replace_open s
      else a # replace_open (b # s))"
| "replace_open s = s"

fun replace_close :: "string \<Rightarrow> string" where
  "replace_close (a # b # s) =
     (if a \<noteq> CHR ''|'' \<and> b = CHR ''}'' then ''|}'' @ replace_close s
      else a # replace_close (b # s))"
| "replace_close s = s"

text \<open>\<^verbatim>\<open>s.indexOf(p) >= 0\<close> on strings.\<close>

fun is_substring :: "string \<Rightarrow> string \<Rightarrow> bool" where
  "is_substring p [] = (p = [])"
| "is_substring p (c # s) = (take (length p) (c # s) = p \<or> is_substring p s)"

section \<open>\<^verbatim>\<open>Array.prototype.sort\<close>\<close>

text \<open>
  \<^verbatim>\<open>propertiesTemplate\<close> sorts with the comparator \<^verbatim>\<open>a => (a[0] === "&" ? 1 : -1)\<close>, which
  reads its first argument only.  It is not a consistent comparison function (it never
  answers 0, and it answers the same for \<open>(a, b)\<close> and \<open>(b, a)\<close> when both start alike),
  and for such a comparator ECMAScript leaves the order to the implementation.  So the
  sorting procedure is a parameter \<open>srt\<close> of the model.  \<open>insertion_sort\<close> is one
  implementation: the \<^verbatim>\<open>InsertionSort\<close> V8 ran on arrays of at most ten elements before it
  moved to TimSort, where an element moves left past every element \<open>t\<close> with
  \<open>cmp t element > 0\<close>.  In the function the sorted part is kept reversed, nearest element
  first.
\<close>

type_synonym sorter = "(string \<Rightarrow> string \<Rightarrow> int) \<Rightarrow> string list \<Rightarrow> string list"

fun insert_back :: "('a \<Rightarrow> 'a \<Rightarrow> int) \<Rightarrow> 'a \<Rightarrow> 'a list \<Rightarrow> 'a list" where
  "insert_back cmp element [] = [element]"
| "insert_back cmp element (t # rs) =
     (if cmp t element > 0 then t # insert_back cmp element rs else element # t # rs)"

definition insertion_sort :: "('a \<Rightarrow> 'a \<Rightarrow> int) \<Rightarrow> 'a list \<Rightarrow> 'a list" where
  "insertion_sort cmp xs = rev (foldl (\<lambda>rs element. insert_back cmp element rs) [] xs)"

text \<open>
  A second implementation: what V8's TimSort does on an array of fewer than 64 elements,
  where the minimal run length is the length of the array and no runs are merged.
  \<^verbatim>\<open>CountAndMakeRun\<close> takes the longest run at the start of the array, descending
  (every element compares below its predecessor) or else ascending, and reverses a
  descending one; \<^verbatim>\<open>BinaryInsertionSort\<close> then inserts each of the other elements at the
  place a binary search over the sorted part finds, asking \<open>cmp pivot (elements ! mid)\<close>.
\<close>

fun descending_run :: "('a \<Rightarrow> 'a \<Rightarrow> int) \<Rightarrow> 'a \<Rightarrow> 'a list \<Rightarrow> 'a list \<times> 'a list" where
  "descending_run cmp previous [] = ([], [])"
| "descending_run cmp previous (x # xs) =
     (if cmp x previous < 0
      then (case descending_run cmp x xs of (run, rest) \<Rightarrow> (x # run, rest))
      else ([], x # xs))"

fun ascending_run :: "('a \<Rightarrow> 'a \<Rightarrow> int) \<Rightarrow> 'a \<Rightarrow> 'a list \<Rightarrow> 'a list \<times> 'a list" where
  "ascending_run cmp previous [] = ([], [])"
| "ascending_run cmp previous (x # xs) =
     (if cmp x previous \<ge> 0
      then (case ascending_run cmp x xs of (run, rest) \<Rightarrow> (x # run, rest))
      else ([], x # xs))"

fun count_and_make_run :: "('a \<Rightarrow> 'a \<Rightarrow> int) \<Rightarrow> 'a list \<Rightarrow> 'a list \<times> 'a list" where
  "count_and_make_run cmp (a # b # xs) =
     (if cmp b a < 0
      then (case descending_run cmp b xs of (run, rest) \<Rightarrow> (rev (a # b # run), rest))
      else (case ascending_run cmp b xs of (run, rest) \<Rightarrow> (a # b # run, rest)))"
| "count_and_make_run cmp xs = (xs, [])"

function binary_search :: "('a \<Rightarrow> 'a \<Rightarrow> int) \<Rightarrow> 'a \<Rightarrow> 'a list \<Rightarrow> nat \<Rightarrow> nat \<Rightarrow> nat" where
  "binary_search cmp pivot elements left right =
     (if left < right then
        (let mid = left + (right - left) div 2 in
         if cmp pivot (elements ! mid) < 0 then binary_search cmp pivot elements left mid
         else binary_search cmp pivot elements (mid + 1) right)
      else left)"
  by pat_completeness auto
termination
  by (relation "measure (\<lambda>(cmp, pivot, elements, left, right). right - left)") auto

declare binary_search.simps [simp del]

definition binary_insert :: "('a \<Rightarrow> 'a \<Rightarrow> int) \<Rightarrow> 'a list \<Rightarrow> 'a \<Rightarrow> 'a list" where
  "binary_insert cmp elements pivot =
     (let left = binary_search cmp pivot elements 0 (length elements)
      in take left elements @ pivot # drop left elements)"

definition binary_insertion_sort :: "('a \<Rightarrow> 'a \<Rightarrow> int) \<Rightarrow> 'a list \<Rightarrow> 'a list" where
  "binary_insertion_sort cmp xs =
     (case count_and_make_run cmp xs of (run, rest) \<Rightarrow> foldl (binary_insert cmp) run rest)"

text \<open>
  What the theorems below ask of a sorting procedure, for a comparator that never answers
  0: the result is a rearrangement of the input, and two elements stand next to each other
  only where the comparator, asked about the two in one order or the other, allowed it.
  A procedure that puts an element next to another one only after it compared the two
  sorts in this sense; the two implementations above are proved to below.
\<close>

fun neighbours_allowed :: "('a \<Rightarrow> 'a \<Rightarrow> int) \<Rightarrow> 'a list \<Rightarrow> bool" where
  "neighbours_allowed cmp (x # y # ys) =
     ((cmp x y \<le> 0 \<or> cmp y x \<ge> 0) \<and> neighbours_allowed cmp (y # ys))"
| "neighbours_allowed cmp ys = True"

text \<open>The same test on a list that is kept in reverse, as \<open>insert_back\<close> keeps the sorted
  part: \<open>y\<close> stands behind \<open>x\<close>.\<close>

fun back_allowed :: "('a \<Rightarrow> 'a \<Rightarrow> int) \<Rightarrow> 'a list \<Rightarrow> bool" where
  "back_allowed cmp (y # x # rs) = ((cmp x y \<le> 0 \<or> cmp y x \<ge> 0) \<and> back_allowed cmp (x # rs))"
| "back_allowed cmp rs = True"

text \<open>Two neighbours, \<open>x\<close> before \<open>y\<close>, that the comparator allowed.\<close>

definition allowed :: "('a \<Rightarrow> 'a \<Rightarrow> int) \<Rightarrow> 'a \<Rightarrow> 'a \<Rightarrow> bool" where
  "allowed cmp x y \<longleftrightarrow> cmp x y \<le> 0 \<or> cmp y x \<ge> 0"

definition comparison_sort :: "sorter \<Rightarrow> bool" where
  "comparison_sort srt \<longleftrightarrow>
     (\<forall>cmp xs. (\<forall>a b. cmp a b \<noteq> 0) \<longrightarrow>
        mset (srt cmp xs) = mset xs \<and> neighbours_allowed cmp (srt cmp xs))"

text \<open>The comparator \<^verbatim>\<open>a => (a[0] === "&" ? 1 : -1)\<close>, and its test
  \<^verbatim>\<open>a[0] === "&"\<close>.\<close>

definition starts_with_amp :: "string \<Rightarrow> bool" where
  "starts_with_amp a = (take 1 a = ''&'')"

definition refs_last :: "string \<Rightarrow> string \<Rightarrow> int" where
  "refs_last a b = (if starts_with_amp a then 1 else - 1)"

text \<open>\<^verbatim>\<open>sort\<close> moves the elements that are \<^verbatim>\<open>undefined\<close> behind the others and never
  passes one to the comparator.\<close>

definition array_sort :: "sorter \<Rightarrow> (string \<Rightarrow> string \<Rightarrow> int) \<Rightarrow> string option list
    \<Rightarrow> string option list" where
  "array_sort srt cmp xs =
     map Some (srt cmp (concat (map (\<lambda>x. case x of None \<Rightarrow> [] | Some s \<Rightarrow> [s]) xs)))
     @ filter (\<lambda>x. x = None) xs"

section \<open>The generator\<close>

text \<open>The flags \<^verbatim>\<open>program.checkRequired\<close> and \<^verbatim>\<open>program.exact\<close> of the command line.\<close>

record config =
  checkRequired :: bool
  exact :: bool

definition typeMapping :: "(string \<times> string) list" where
  "typeMapping =
     [(''array'', ''Array<*>''), (''boolean'', ''boolean''), (''integer'', ''number''),
      (''number'', ''number''), (''null'', ''null''), (''object'', ''Object''),
      (''Object'', ''Object''), (''string'', ''string''), (''enum'', ''string'')]"

text \<open>\<^verbatim>\<open>typeMapping[key]\<close>: an entry of the table, else a member inherited from
  \<^verbatim>\<open>Object.prototype\<close>, else \<^verbatim>\<open>undefined\<close>.\<close>

definition typeMapping_at :: "string \<Rightarrow> jsval" where
  "typeMapping_at key =
     (case map_of typeMapping key of
        Some t \<Rightarrow> JStr t
      | None \<Rightarrow> if key \<in> set object_prototype_names then JBuiltin key else JUndefined)"

text \<open>\<^verbatim>\<open>ref.match(re)\<close> is a call of a method only a string has.\<close>

fun definitionTypeName :: "jsval \<Rightarrow> error + jsval" where
  "definitionTypeName (JStr ref) =
     (case ref_match ref of
        None \<Rightarrow> Inr (JStr [])
      | Some (found1, found2) \<Rightarrow> Inr (if truthy found1 then found1 else found2))"
| "definitionTypeName v = Inl TypeError"

definition stripBrackets :: "string \<Rightarrow> string" where
  "stripBrackets name = filter (\<lambda>c. c \<noteq> CHR ''['' \<and> c \<noteq> CHR '']'' \<and> c \<noteq> squote) name"

definition removeGenericsBug :: "string \<Rightarrow> string" where
  "removeGenericsBug v = filter (\<lambda>c. c \<noteq> CHR 0xBB) (filter (\<lambda>c. c \<noteq> CHR 0xAB) v)"

definition withExact :: "string \<Rightarrow> string" where
  "withExact property = replace_close (replace_open property)"

definition isRequired :: "string \<Rightarrow> jsval \<Rightarrow> error + bool" where
  "isRequired propertyName definition =
     (case get definition ''required'' of
        Inl x \<Rightarrow> Inl x
      | Inr required \<Rightarrow>
          if \<not> truthy required then Inr False
          else (case required of
                  JArr xs \<Rightarrow> Inr (JStr propertyName \<in> set xs)
                | JStr s \<Rightarrow> Inr (is_substring propertyName s)
                | _ \<Rightarrow> Inl TypeError))"

definition propertyKeyForDefinition :: "config \<Rightarrow> string \<Rightarrow> jsval \<Rightarrow> error + string" where
  "propertyKeyForDefinition cfg propName definition =
     (if checkRequired cfg then
        (case isRequired propName definition of
           Inl x \<Rightarrow> Inl x
         | Inr r \<Rightarrow> Inr (propName @ (if r then [] else ''?'')))
      else Inr propName)"

text \<open>One member of an \<^verbatim>\<open>allOf\<close> list, as the callback of \<^verbatim>\<open>properties.map\<close> renders
  it; \<open>None\<close> is \<^verbatim>\<open>undefined\<close>.\<close>

definition render_member :: "config \<Rightarrow> jsval \<Rightarrow> error + string option" where
  "render_member cfg property =
     (case get property ''$ref'' of
        Inl x \<Rightarrow> Inl x
      | Inr r \<Rightarrow>
          if truthy r then
            (case to_string r of Inl x \<Rightarrow> Inl x | Inr n \<Rightarrow> Inr (Some (''& '' @ n)))
          else
            (case stringify property of
               Inl x \<Rightarrow> Inl x
             | Inr p \<Rightarrow>
                 if exact cfg then
                   (case p of None \<Rightarrow> Inl TypeError | Some j \<Rightarrow> Inr (Some (withExact j)))
                 else Inr p))"

definition propertiesTemplate :: "sorter \<Rightarrow> config \<Rightarrow> jsval \<Rightarrow> error + jsval" where
  "propertiesTemplate srt cfg properties =
     (case properties of
        JStr s \<Rightarrow> Inr (JStr s)
      | JArr ps \<Rightarrow>
          (case try_map (render_member cfg) ps of
             Inl x \<Rightarrow> Inl x
           | Inr rendered \<Rightarrow>
               Inr (JStr (join '' '' (map (\<lambda>p. case p of None \<Rightarrow> [] | Some s \<Rightarrow> s)
                                         (array_sort srt refs_last rendered)))))
      | _ \<Rightarrow>
          (case stringify properties of
             Inl x \<Rightarrow> Inl x
           | Inr p \<Rightarrow>
               if exact cfg then
                 (case p of None \<Rightarrow> Inl TypeError | Some j \<Rightarrow> Inr (JStr (withExact j)))
               else (case p of None \<Rightarrow> Inr JUndefined | Some j \<Rightarrow> Inr (JStr j))))"


subsection \<open>The Type Synthesizer and the Property-List Builder\<close>

text \<open>
  \<^verbatim>\<open>typeFor\<close> and \<^verbatim>\<open>propertiesList\<close> call each other.  Either call goes to a part of the
  value it was given, except that \<^verbatim>\<open>propertiesList\<close> passes a definition with a \<^verbatim>\<open>type\<close>
  other than \<^verbatim>\<open>object\<close> on to \<^verbatim>\<open>typeFor\<close> as it is; the measure counts that step.  The
  comments name the lines of \<^verbatim>\<open>src/index.js\<close> where a branch begins.
\<close>

lemma map_of_size: "map_of kvs k = Some v \<Longrightarrow> size v < Suc (size_list (size_prod (\<lambda>x. 0) size) kvs)"
  by (induction kvs) (auto split: if_splits)

lemma get_size: "get v name = Inr w \<Longrightarrow> size w \<le> size v"
  by (cases v) (auto split: option.splits dest: map_of_size)

lemma get_size_strict: "get v name = Inr w \<Longrightarrow> w \<noteq> JUndefined \<Longrightarrow> size w < size v"
  by (cases v) (auto split: option.splits dest: map_of_size)

lemma has_defined: "has name v = Inr b \<Longrightarrow> v \<noteq> JUndefined"
  by (cases v) auto

lemma own_entries_size: "own_entries v = Inr es \<Longrightarrow> (k, w) \<in> set es \<Longrightarrow> size w \<le> size v"
proof (cases v)
  case (JStr s)
  assume "own_entries v = Inr es" "(k, w) \<in> set es"
  with JStr have "w \<in> set (map (\<lambda>c. JStr [c]) s)" by (auto dest: set_zip_rightD)
  then show ?thesis by auto
next
  case (JArr xs)
  assume "own_entries v = Inr es" "(k, w) \<in> set es"
  with JArr have "w \<in> set xs" by (auto dest: set_zip_rightD)
  then show ?thesis using JArr elem_size [of w xs] by simp
next
  case (JObj kvs)
  assume "own_entries v = Inr es" "(k, w) \<in> set es"
  with JObj show ?thesis using entry_size [of k w kvs] by simp
qed auto

lemma truthy_defined: "truthy v \<Longrightarrow> v \<noteq> JUndefined"
  by auto

lemma get_elem_size: "get v name = Inr (JArr xs) \<Longrightarrow> x \<in> set xs \<Longrightarrow> size x < size v"
  using get_size_strict [of v name "JArr xs"] elem_size [of x xs] by simp

function typeFor :: "sorter \<Rightarrow> config \<Rightarrow> jsval \<Rightarrow> error + jsval"
  and propertiesList :: "sorter \<Rightarrow> config \<Rightarrow> jsval \<Rightarrow> error + jsval" where
  "typeFor srt cfg property =
     (case get property ''type'' of
        Inl x \<Rightarrow> Inl x
      | Inr t \<Rightarrow>
          if t = JStr ''array'' then \<comment> \<open>line 35\<close>
            (case get property ''items'' of
               Inl x \<Rightarrow> Inl x
             | Inr items \<Rightarrow>
                 (case has ''oneOf'' items of
                    Inl x \<Rightarrow> Inl x
                  | Inr has_oneOf \<Rightarrow>
                      if has_oneOf then \<comment> \<open>line 36\<close>
                        (case get items ''oneOf'' of
                           Inl x \<Rightarrow> Inl x
                         | Inr oneOf \<Rightarrow>
                             (case oneOf of
                                JArr es \<Rightarrow>
                                  (case try_map
                                      (\<lambda>e. case get e ''type'' of
                                              Inl x \<Rightarrow> Inl x
                                            | Inr et \<Rightarrow>
                                                if et = JStr ''object'' then
                                                  (case get e ''items'' of
                                                     Inl x \<Rightarrow> Inl x
                                                   | Inr ei \<Rightarrow>
                                                       (case propertiesList srt cfg ei of
                                                          Inl x \<Rightarrow> Inl x
                                                        | Inr pl \<Rightarrow>
                                                            (case propertiesTemplate srt cfg pl of
                                                               Inl x \<Rightarrow> Inl x
                                                             | Inr pt \<Rightarrow>
                                                                 (case replace_dquotes pt of
                                                                    Inl x \<Rightarrow> Inl x
                                                                  | Inr s \<Rightarrow> Inr (JStr s)))))
                                                else typeFor srt cfg e) es of
                                     Inl x \<Rightarrow> Inl x
                                   | Inr alternatives \<Rightarrow>
                                       (case join_values '' | '' alternatives of
                                          Inl x \<Rightarrow> Inl x
                                        | Inr u \<Rightarrow> Inr (JStr (''Array<'' @ u @ ''>''))))
                              | _ \<Rightarrow> Inl TypeError))
                      else
                        (case has ''$ref'' items of
                           Inl x \<Rightarrow> Inl x
                         | Inr has_ref \<Rightarrow>
                             if has_ref then \<comment> \<open>line 45\<close>
                               (case get items ''$ref'' of
                                  Inl x \<Rightarrow> Inl x
                                | Inr r \<Rightarrow>
                                    (case definitionTypeName r of
                                       Inl x \<Rightarrow> Inl x
                                     | Inr n \<Rightarrow>
                                         (case to_string n of
                                            Inl x \<Rightarrow> Inl x
                                          | Inr u \<Rightarrow> Inr (JStr (''Array<'' @ u @ ''>'')))))
                             else
                               (case get items ''type'' of
                                  Inl x \<Rightarrow> Inl x
                                | Inr it \<Rightarrow>
                                    if it = JStr ''object'' then \<comment> \<open>line 47\<close>
                                      (case propertiesList srt cfg items of
                                         Inl x \<Rightarrow> Inl x
                                       | Inr pl \<Rightarrow>
                                           (case propertiesTemplate srt cfg pl of
                                              Inl x \<Rightarrow> Inl x
                                            | Inr pt \<Rightarrow>
                                                (case replace_dquotes pt of
                                                   Inl x \<Rightarrow> Inl x
                                                 | Inr child \<Rightarrow>
                                                     Inr (JStr (''Array<'' @ child @ ''>'')))))
                                    else \<comment> \<open>line 54\<close>
                                      (case to_string it of
                                         Inl x \<Rightarrow> Inl x
                                       | Inr key \<Rightarrow>
                                           (case to_string (typeMapping_at key) of
                                              Inl x \<Rightarrow> Inl x
                                            | Inr u \<Rightarrow> Inr (JStr (''Array<'' @ u @ ''>''))))))))
          else
            (case (if t = JStr ''string'' then has ''enum'' property else Inr False) of
               Inl x \<Rightarrow> Inl x
             | Inr is_enum \<Rightarrow>
                 if is_enum then \<comment> \<open>line 55\<close>
                   (case get property ''enum'' of
                      Inl x \<Rightarrow> Inl x
                    | Inr enum \<Rightarrow>
                        (case enum of
                           JArr es \<Rightarrow>
                             (case try_map
                                 (\<lambda>e. case to_string e of
                                         Inl x \<Rightarrow> Inl x
                                       | Inr u \<Rightarrow> Inr ([squote] @ u @ [squote])) es of
                                Inl x \<Rightarrow> Inl x
                              | Inr literals \<Rightarrow> Inr (JStr (join '' | '' literals)))
                         | _ \<Rightarrow> Inl TypeError))
                 else \<comment> \<open>line 58\<close>
                   (case to_string t of
                      Inl x \<Rightarrow> Inl x
                    | Inr key \<Rightarrow>
                        if truthy (typeMapping_at key) then Inr (typeMapping_at key)
                        else (case get property ''$ref'' of
                                Inl x \<Rightarrow> Inl x
                              | Inr r \<Rightarrow> definitionTypeName r))))"
| "propertiesList srt cfg definition =
     (case has ''allOf'' definition of
        Inl x \<Rightarrow> Inl x
      | Inr has_allOf \<Rightarrow>
          if has_allOf then \<comment> \<open>line 78\<close>
            (case get definition ''allOf'' of
               Inl x \<Rightarrow> Inl x
             | Inr allOf \<Rightarrow>
                 (case allOf of
                    JArr ds \<Rightarrow>
                      (case try_map (propertiesList srt cfg) ds of
                         Inl x \<Rightarrow> Inl x
                       | Inr members \<Rightarrow> Inr (JArr members))
                  | _ \<Rightarrow> Inl TypeError))
          else
            (case get definition ''$ref'' of
               Inl x \<Rightarrow> Inl x
             | Inr r \<Rightarrow>
                 if truthy r then \<comment> \<open>line 82\<close>
                   (case definitionTypeName r of
                      Inl x \<Rightarrow> Inl x
                    | Inr n \<Rightarrow> Inr (JObj [(''$ref'', n)]))
                 else
                   (case has ''type'' definition of
                      Inl x \<Rightarrow> Inl x
                    | Inr has_type \<Rightarrow>
                        (case get definition ''type'' of
                           Inl x \<Rightarrow> Inl x
                         | Inr t \<Rightarrow>
                             if has_type \<and> t \<noteq> JStr ''object'' then typeFor srt cfg definition
                             else
                               (case get definition ''properties'' of
                                  Inl x \<Rightarrow> Inl x
                                | Inr props \<Rightarrow>
                                    if \<not> truthy props then Inr (JObj [])
                                    else
                                      (case own_entries props of
                                         Inl x \<Rightarrow> Inl x
                                       | Inr entries \<Rightarrow>
                                           if length entries = 0 then Inr (JObj [])
                                           else \<comment> \<open>lines 96 to 109\<close>
                                             (case try_map
                                                 (\<lambda>(propName, v).
                                                    case propertyKeyForDefinition cfg propName definition of
                                                      Inl x \<Rightarrow> Inl x
                                                    | Inr key \<Rightarrow>
                                                        (case typeFor srt cfg v of
                                                           Inl x \<Rightarrow> Inl x
                                                         | Inr t \<Rightarrow> Inr (key, t))) entries of
                                                Inl x \<Rightarrow> Inl x
                                              | Inr sources \<Rightarrow> Inr (JObj (object_assign sources)))))))))"
  by pat_completeness auto
termination
  apply (relation "measure (\<lambda>x. case x of Inl (_, _, v) \<Rightarrow> 2 * size v | Inr (_, _, v) \<Rightarrow> 2 * size v + 1)")
  apply simp_all
  subgoal for property b ba bb bc x6 x bd be
    using get_size [of x "''items''" be] get_elem_size [of ba "''oneOf''" x6 x]
      get_size_strict [of property "''items''" ba] has_defined [of "''oneOf''" ba True]
    by simp
  subgoal for property b ba bb bc x6 x bd
    using get_elem_size [of ba "''oneOf''" x6 x]
      get_size_strict [of property "''items''" ba] has_defined [of "''oneOf''" ba True]
    by simp
  subgoal for property b ba bb bc bd
    using get_size_strict [of property "''items''" ba] has_defined [of "''oneOf''" ba False]
    by simp
  subgoal for d b ba x6 x
    using get_elem_size [of d "''allOf''" x6 x] by simp
  subgoal for cfg d b ba bb bc bd be x xa y bf
    using own_entries_size [of bd be xa y] get_size_strict [of d "''properties''" bd]
      truthy_defined [of bd]
    by auto
  done

declare typeFor.simps [simp del] propertiesList.simps [simp del]

subsection \<open>The Import Resolver, the Definition Collector and the Emitter\<close>

text \<open>\<^verbatim>\<open>reduce\<close>, with a callback that may throw.\<close>

fun try_fold :: "('b \<Rightarrow> 'a \<Rightarrow> error + 'b) \<Rightarrow> 'b \<Rightarrow> 'a list \<Rightarrow> error + 'b" where
  "try_fold f acc [] = Inr acc"
| "try_fold f acc (x # xs) =
     (case f acc x of Inl e \<Rightarrow> Inl e | Inr acc' \<Rightarrow> try_fold f acc' xs)"

text \<open>The callback of the \<^verbatim>\<open>reduce\<close> in \<^verbatim>\<open>importsList\<close>.  \<^verbatim>\<open>a && b\<close> is \<open>a\<close> when \<open>a\<close> is
  falsy and \<open>b\<close> otherwise.\<close>

definition import_step :: "jsval list \<Rightarrow> jsval \<Rightarrow> error + jsval list" where
  "import_step acc v =
     (case (if truthy v then get v ''$ref'' else Inr v) of
        Inl x \<Rightarrow> Inl x
      | Inr r \<Rightarrow>
          if truthy r then
            (case definitionTypeName r of Inl x \<Rightarrow> Inl x | Inr n \<Rightarrow> Inr (acc @ [n]))
          else
            (case (if \<not> truthy v then Inr v
                   else (case get v ''type'' of
                           Inl x \<Rightarrow> Inl x
                         | Inr t \<Rightarrow>
                             if t \<noteq> JStr ''array'' then Inr (JBool False)
                             else (case get v ''items'' of
                                     Inl x \<Rightarrow> Inl x
                                   | Inr items \<Rightarrow>
                                       if \<not> truthy items then Inr items
                                       else get items ''$ref''))) of
               Inl x \<Rightarrow> Inl x
             | Inr r' \<Rightarrow>
                 if truthy r' then
                   (case get v ''items'' of
                      Inl x \<Rightarrow> Inl x
                    | Inr items \<Rightarrow>
                        (case get items ''$ref'' of
                           Inl x \<Rightarrow> Inl x
                         | Inr r'' \<Rightarrow>
                             (case definitionTypeName r'' of
                                Inl x \<Rightarrow> Inl x
                              | Inr n \<Rightarrow> Inr (acc @ [n]))))
                 else Inr acc))"

definition importsList :: "jsval \<Rightarrow> error + jsval list" where
  "importsList definition =
     (case get definition ''properties'' of
        Inl x \<Rightarrow> Inl x
      | Inr props \<Rightarrow>
          if \<not> truthy props then Inr []
          else (case own_entries props of
                  Inl x \<Rightarrow> Inl x
                | Inr entries \<Rightarrow> try_fold import_step [] (map snd entries)))"

text \<open>One element of the array \<^verbatim>\<open>generatorArray\<close> returns.\<close>

record generated =
  title :: string
  properties :: jsval
  imports' :: "jsval list"

definition generatorArray :: "sorter \<Rightarrow> config \<Rightarrow> jsval \<Rightarrow> generator_error + generated list" where
  "generatorArray srt cfg swagger =
     (case get swagger ''definitions'' of
        Inl x \<Rightarrow> Inl (Thrown x)
      | Inr d \<Rightarrow>
          (case (if truthy d then Inr d
                 else (case get swagger ''components'' of
                         Inl x \<Rightarrow> Inl x
                       | Inr c \<Rightarrow> if truthy c then get c ''schemas'' else Inr JUndefined)) of
             Inl x \<Rightarrow> Inl (Thrown x)
           | Inr defs \<Rightarrow>
               if \<not> truthy defs then Inl NoDefinition
               else
                 (case own_entries defs of
                    Inl x \<Rightarrow> Inl (Thrown x)
                  | Inr entries \<Rightarrow>
                      (case try_map
                          (\<lambda>(definitionName, d).
                             case propertiesList srt cfg d of
                               Inl x \<Rightarrow> Inl x
                             | Inr pl \<Rightarrow>
                                 (case importsList d of
                                    Inl x \<Rightarrow> Inl x
                                  | Inr imps \<Rightarrow>
                                      Inr \<lparr>title = stripBrackets (removeGenericsBug definitionName),
                                           properties = pl, imports' = imps\<rparr>))
                          entries of
                         Inl x \<Rightarrow> Inl (Thrown x)
                       | Inr gs \<Rightarrow> Inr gs))))"

definition importTemplate :: "jsval \<Rightarrow> error + string" where
  "importTemplate typeName =
     (case to_string typeName of
        Inl x \<Rightarrow> Inl x
      | Inr n \<Rightarrow> Inr (''import type { '' @ n @ '' } from '' @ [squote] @ ''./'' @ n @ [squote] @ '';''))"

text \<open>\<^verbatim>\<open>Array.from(new Set(xs))\<close>: the set takes the elements in order and skips one it
  already holds.\<close>

definition array_from_set :: "'a list \<Rightarrow> 'a list" where
  "array_from_set xs = foldl (\<lambda>acc x. if x \<in> set acc then acc else acc @ [x]) [] xs"

definition importTemplates :: "generated \<Rightarrow> error + string" where
  "importTemplates definition =
     (case try_map importTemplate (array_from_set (imports' definition)) of
        Inl x \<Rightarrow> Inl x
      | Inr lines \<Rightarrow> Inr (join [CHR 0x0A] lines))"

definition generateTypeFile :: "sorter \<Rightarrow> config \<Rightarrow> generated \<Rightarrow> error + string" where
  "generateTypeFile srt cfg definition =
     (case propertiesTemplate srt cfg (properties definition) of
        Inl x \<Rightarrow> Inl x
      | Inr rendered \<Rightarrow>
          (case replace_dquotes rendered of
             Inl x \<Rightarrow> Inl x
           | Inr expression \<Rightarrow>
               (case importTemplates definition of
                  Inl x \<Rightarrow> Inl x
                | Inr imports_text \<Rightarrow>
                    Inr (imports_text @ ''export type '' @ title definition @ '' = ''
                         @ expression @ '';''))))"


section \<open>Notions of the specification\<close>

text \<open>
  The definitions of this section are not taken from the code.  They say, in the words
  of the specification, what the claims below compare the code with.
\<close>

subsection \<open>Keys of a property mapping\<close>

text \<open>
  A list of keys is in the order an object reports them when no array index stands
  behind a key that is no array index, or behind a larger array index.
\<close>

definition js_key_order :: "string list \<Rightarrow> bool" where
  "js_key_order ks =
     sorted_wrt (\<lambda>a b. is_array_index b \<longrightarrow> is_array_index a \<and> dec_val a < dec_val b) ks"

subsection \<open>Members of an \<^verbatim>\<open>allOf\<close> list\<close>

text \<open>
  A member is a \<^verbatim>\<open>$ref\<close> marker \<^verbatim>\<open>{ $ref: ResolvedName }\<close> with a name that is not empty,
  or a property mapping: property names with their type expressions, which are strings,
  and no property \<^verbatim>\<open>$ref\<close>.  A marker is rendered as the intersection operand
  \<^verbatim>\<open>& ResolvedName\<close>, a mapping as its own object literal: between braces and separated
  by commas, every name with its type expression behind a colon, both in the double
  quotes that the declaration deletes.
\<close>

fun is_marker :: "jsval \<Rightarrow> bool" where
  "is_marker (JObj [(k, JStr n)]) = (k = ''$ref'' \<and> n \<noteq> [])"
| "is_marker m = False"

fun marker_name :: "jsval \<Rightarrow> string" where
  "marker_name (JObj [(k, JStr n)]) = n"
| "marker_name m = []"

fun is_type_expression :: "jsval \<Rightarrow> bool" where
  "is_type_expression (JStr t) = True"
| "is_type_expression v = False"

definition is_mapping :: "jsval \<Rightarrow> bool" where
  "is_mapping m =
     (case m of
        JObj kvs \<Rightarrow> ''$ref'' \<notin> fst ` set kvs \<and> list_all is_type_expression (map snd kvs)
      | _ \<Rightarrow> False)"

fun entry_text :: "string \<times> jsval \<Rightarrow> string" where
  "entry_text (k, JStr t) = json_quote k @ '':'' @ json_quote t"
| "entry_text (k, v) = []"

definition object_literal :: "jsval \<Rightarrow> string" where
  "object_literal m =
     (case m of JObj kvs \<Rightarrow> ''{'' @ join '','' (map entry_text kvs) @ ''}'' | _ \<Rightarrow> [])"

definition member_text :: "jsval \<Rightarrow> string" where
  "member_text m = (if is_marker m then ''& '' @ marker_name m else object_literal m)"

subsection \<open>References of a definition\<close>









section \<open>Evaluation\<close>

text \<open>The equations that compute the generator on a given document.\<close>

lemmas generator_eval =
  typeFor.simps propertiesList.simps propertiesTemplate_def render_member_def
  propertyKeyForDefinition_def isRequired_def object_assign_def obj_set_def typeMapping_at_def
  typeMapping_def is_array_index_def withExact_def replace_dquotes_def join_values_def
  array_sort_def refs_last_def starts_with_amp_def insertion_sort_def json_quote_def
  json_escape_def object_prototype_names_def builtin_text_def generateTypeFile_def
  importTemplates_def importTemplate_def array_from_set_def generatorArray_def importsList_def
  import_step_def stripBrackets_def removeGenericsBug_def dot_star_def is_digit_def dec_val_def
  stringify_def toJSON_value_def call_builtin_def call_member_def

lemma map_of_Some_in_keys: "map_of kvs k = Some v \<Longrightarrow> k \<in> fst ` set kvs"
  by (metis domI dom_map_of_conv_image_fst)

lemma map_of_None_keys: "map_of kvs k = None \<longleftrightarrow> k \<notin> fst ` set kvs"
  by (simp add: map_of_eq_None_iff)

lemma map_of_absent: "k \<notin> fst ` set kvs \<Longrightarrow> map_of kvs k = None"
  by (simp add: map_of_eq_None_iff)

lemma try_map_length: "try_map f xs = Inr ys \<Longrightarrow> length ys = length xs"
  by (induction xs arbitrary: ys) (auto split: sum.splits)

section \<open>The Reference Resolver\<close>

text \<open>On a string the resolver returns and never throws.\<close>

lemma definitionTypeName_returns: "\<exists>n. definitionTypeName (JStr p) = Inr n"
  by (simp split: option.splits prod.splits)

text \<open>
  Claim C5, second half: for a pointer that matches, \<^verbatim>\<open>definitionTypeName\<close> returns the
  text behind the matched prefix.  The code returns \<^verbatim>\<open>found[1] || found[2]\<close>.  Behind
  \<^verbatim>\<open>#/definitions/\<close> an empty text is the first group, which is falsy, and the second
  group did not take part in the match: the result is \<^verbatim>\<open>undefined\<close> and no string at
  all.  Behind \<^verbatim>\<open>#/components/schemas/\<close> the same empty text is the second operand of
  \<^verbatim>\<open>||\<close> and is returned.  A segment that is not empty is returned behind either
  prefix, and a pointer that does not match gives the empty string.
\<close>

theorem definitionTypeName_empty_segment:
  "definitionTypeName (JStr ''#/definitions/'') = Inr JUndefined
   \<and> definitionTypeName (JStr ''#/components/schemas/'') = Inr (JStr [])
   \<and> definitionTypeName (JStr ''#/definitions/Pet'') = Inr (JStr ''Pet'')
   \<and> definitionTypeName (JStr ''#/components/schemas/Pet'') = Inr (JStr ''Pet'')
   \<and> definitionTypeName (JStr ''#/parameters/Pet'') = Inr (JStr [])"
  by (simp add: dot_star_def)

section \<open>The Type Synthesizer\<close>

text \<open>
  Claim C8: a node whose type has no entry in the table and which has no \<^verbatim>\<open>$ref\<close> is
  said to give \<^verbatim>\<open>undefined\<close> quietly.  The last line of \<^verbatim>\<open>typeFor\<close> is
  \<^verbatim>\<open>typeMapping[property.type] || definitionTypeName(property.$ref)\<close>: with no entry the
  resolver is called on \<^verbatim>\<open>undefined\<close>, and \<^verbatim>\<open>ref.match\<close> throws a \<^verbatim>\<open>TypeError\<close>, for a node
  with an unknown type and for a node with no type.  The array branch does fall back
  quietly for the same type of its items: \<^verbatim>\<open>Array<undefined>\<close>.
\<close>

theorem typeFor_unknown_type_throws:
  "typeFor srt cfg (JObj [(''type'', JStr ''foo'')]) = Inl TypeError
   \<and> typeFor srt cfg (JObj [(''description'', JStr ''anything'')]) = Inl TypeError
   \<and> typeFor srt cfg (JObj [(''type'', JStr ''array''), (''items'', JObj [(''type'', JStr ''foo'')])])
       = Inr (JStr ''Array<undefined>'')"
  by (simp add: generator_eval)

lemma try_map_enum_literals:
  "try_map (\<lambda>e. case to_string e of Inl x \<Rightarrow> Inl x | Inr u \<Rightarrow> Inr ([squote] @ u @ [squote]))
     (map JStr literals) = Inr (map (\<lambda>u. [squote] @ u @ [squote]) literals)"
  by (induction literals) simp_all

text \<open>
  Claim C6: for a node with type \<^verbatim>\<open>string\<close> and an \<^verbatim>\<open>enum\<close> list of strings, \<^verbatim>\<open>typeFor\<close>
  gives the union of the values, each between single quotes, in the order of the list,
  joined by \<^verbatim>\<open> | \<close>.
\<close>

theorem typeFor_enum:
  assumes "map_of node ''type'' = Some (JStr ''string'')"
    and "map_of node ''enum'' = Some (JArr (map JStr literals))"
  shows "typeFor srt cfg (JObj node)
         = Inr (JStr (join '' | '' (map (\<lambda>u. [squote] @ u @ [squote]) literals)))"
proof -
  have "''enum'' \<in> fst ` set node"
    using assms(2) by (rule map_of_Some_in_keys)
  then show ?thesis
    using assms by (simp add: typeFor.simps try_map_enum_literals)
qed

text \<open>The node \<^verbatim>\<open>{type: string, enum: ["a","b","c"]}\<close> gives \<^verbatim>\<open>'a' | 'b' | 'c'\<close>.\<close>

theorem typeFor_enum_witness:
  "typeFor insertion_sort \<lparr>checkRequired = False, exact = False\<rparr>
     (JObj [(''type'', JStr ''string''), (''enum'', JArr [JStr ''a'', JStr ''b'', JStr ''c''])])
   = Inr (JStr ([squote] @ ''a'' @ [squote] @ '' | '' @ [squote] @ ''b'' @ [squote] @ '' | ''
                @ [squote] @ ''c'' @ [squote]))"
  using typeFor_enum [of "[(''type'', JStr ''string''), (''enum'', JArr [JStr ''a'', JStr ''b'', JStr ''c''])]"
      "[''a'', ''b'', ''c'']" insertion_sort "\<lparr>checkRequired = False, exact = False\<rparr>"]
  by simp

section \<open>The Property-List Builder\<close>

lemma insert_index_append:
  "\<forall>k' \<in> fst ` set kvs. is_array_index k' \<and> dec_val k' < dec_val k \<Longrightarrow>
   insert_index k v kvs = kvs @ [(k, v)]"
  by (induction kvs) auto

lemma obj_set_append:
  assumes "k \<noteq> ''__proto__''" and "k \<notin> fst ` set kvs"
    and "is_array_index k \<longrightarrow> (\<forall>k' \<in> fst ` set kvs. is_array_index k' \<and> dec_val k' < dec_val k)"
  shows "obj_set kvs k v = kvs @ [(k, v)]"
proof (cases "is_array_index k")
  case True
  with assms(3) have "insert_index k v kvs = kvs @ [(k, v)]"
    by (intro insert_index_append) simp
  with True assms(1,2) show ?thesis by (simp add: obj_set_def)
next
  case False
  with assms(1,2) show ?thesis by (simp add: obj_set_def)
qed

lemma foldl_obj_set:
  assumes "distinct (map fst (acc @ kvs))" and "''__proto__'' \<notin> fst ` set kvs"
    and "js_key_order (map fst (acc @ kvs))"
  shows "foldl (\<lambda>target (k, v). obj_set target k v) acc kvs = acc @ kvs"
  using assms
proof (induction kvs arbitrary: acc)
  case Nil
  then show ?case by simp
next
  case (Cons kv kvs)
  obtain k v where kv: "kv = (k, v)" by (cases kv)
  have "obj_set acc k v = acc @ [(k, v)]"
  proof (rule obj_set_append)
    show "k \<noteq> ''__proto__''" using Cons.prems(2) kv by auto
    show "k \<notin> fst ` set acc" using Cons.prems(1) kv by auto
    show "is_array_index k \<longrightarrow> (\<forall>k' \<in> fst ` set acc. is_array_index k' \<and> dec_val k' < dec_val k)"
      using Cons.prems(3) kv by (auto simp add: js_key_order_def sorted_wrt_append)
  qed
  moreover have "foldl (\<lambda>target (k, v). obj_set target k v) (acc @ [(k, v)]) kvs
      = (acc @ [(k, v)]) @ kvs"
    using Cons.prems kv by (intro Cons.IH) auto
  ultimately show ?case using kv by simp
qed

lemma object_assign_entries:
  "distinct (map fst kvs) \<Longrightarrow> ''__proto__'' \<notin> fst ` set kvs \<Longrightarrow> js_key_order (map fst kvs) \<Longrightarrow>
   object_assign kvs = kvs"
  using foldl_obj_set [of "[]" kvs] by (simp add: object_assign_def)
lemma try_map_keyed:
  assumes "\<And>k. keyf k = Inr (key k)"
  shows "try_map (\<lambda>(k, v). case keyf k of Inl x \<Rightarrow> Inl x
                          | Inr key' \<Rightarrow> (case f v of Inl x \<Rightarrow> Inl x | Inr t \<Rightarrow> Inr (key', t))) props
         = (case try_map f (map snd props) of
              Inl x \<Rightarrow> Inl x
            | Inr ts \<Rightarrow> Inr (zip (map (\<lambda>(k, v). key k) props) ts))"
  by (induction props) (auto simp add: assms split: sum.splits)
lemma propertyKeyForDefinition_list:
  assumes "map_of d ''required'' = None \<and> rs = [] \<or> map_of d ''required'' = Some (JArr rs)"
  shows "propertyKeyForDefinition cfg k (JObj d)
         = Inr (if checkRequired cfg \<and> JStr k \<notin> set rs then k @ ''?'' else k)"
  using assms by (auto simp add: propertyKeyForDefinition_def isRequired_def)

text \<open>
  Claim C1, as amended: take an object schema node, one with no \<^verbatim>\<open>allOf\<close> and no
  \<^verbatim>\<open>$ref\<close>, with no type or the type \<^verbatim>\<open>object\<close>, and with a properties map and a
  \<^verbatim>\<open>required\<close> list or none.  The key of a property is its name, and with \<^verbatim>\<open>checkRequired\<close>
  the name followed by \<^verbatim>\<open>?\<close> exactly when the name is not in the \<^verbatim>\<open>required\<close> list.  When
  these keys are pairwise distinct, none is \<^verbatim>\<open>__proto__\<close> and they are in the order an
  object reports keys, \<^verbatim>\<open>propertiesList\<close> gives one entry per property, in the order of the
  map, under that key and with the value \<^verbatim>\<open>typeFor\<close> gives the property; it throws when
  \<^verbatim>\<open>typeFor\<close> throws on a property.
\<close>

theorem propertiesList_object:
  assumes "''allOf'' \<notin> fst ` set d"
    and "map_of d ''$ref'' = None"
    and "map_of d ''type'' = None \<or> map_of d ''type'' = Some (JStr ''object'')"
    and "map_of d ''properties'' = Some (JObj props)"
    and "map_of d ''required'' = None \<and> rs = [] \<or> map_of d ''required'' = Some (JArr rs)"
    and "ks = map (\<lambda>(k, v). if checkRequired cfg \<and> JStr k \<notin> set rs then k @ ''?'' else k) props"
    and "distinct ks" and "''__proto__'' \<notin> set ks" and "js_key_order ks"
  shows "propertiesList srt cfg (JObj d)
         = (case try_map (typeFor srt cfg) (map snd props) of
              Inl x \<Rightarrow> Inl x
            | Inr ts \<Rightarrow> Inr (JObj (zip ks ts)))"
proof -
  let ?key = "\<lambda>k. if checkRequired cfg \<and> JStr k \<notin> set rs then k @ ''?'' else k"
  have no_type: "''type'' \<in> fst ` set d \<longrightarrow> map_of d ''type'' = Some (JStr ''object'')"
    using assms(3) by (auto simp add: map_of_None_keys)
  have sources: "try_map (\<lambda>(propName, v).
        case propertyKeyForDefinition cfg propName (JObj d) of
          Inl x \<Rightarrow> Inl x
        | Inr key \<Rightarrow> (case typeFor srt cfg v of Inl x \<Rightarrow> Inl x | Inr t \<Rightarrow> Inr (key, t))) props
      = (case try_map (typeFor srt cfg) (map snd props) of
           Inl x \<Rightarrow> Inl x
         | Inr ts \<Rightarrow> Inr (zip ks ts))"
    unfolding assms(6)
    by (rule try_map_keyed) (rule propertyKeyForDefinition_list [OF assms(5)])
  have assign: "object_assign (zip ks ts) = zip ks ts"
    if "try_map (typeFor srt cfg) (map snd props) = Inr ts" for ts
  proof -
    have "length ts = length ks" using try_map_length [OF that] assms(6) by simp
    then have "map fst (zip ks ts) = ks" by simp
    moreover have "fst ` set (zip ks ts) = set ks"
      using \<open>map fst (zip ks ts) = ks\<close> by (metis set_map)
    ultimately show ?thesis using assms(7-9) by (intro object_assign_entries) simp_all
  qed
  show ?thesis
  proof (cases "props = []")
    case True
    then show ?thesis using assms(1-4,6) no_type
      by (auto simp add: propertiesList.simps split: option.splits)
  next
    case False
    then show ?thesis using assms(1-4) no_type sources assign
      by (auto simp add: propertiesList.simps split: option.splits sum.splits)
  qed
qed

text \<open>
  The two examples of the specification: \<^verbatim>\<open>{id: integer, name: string}\<close> with no
  \<^verbatim>\<open>required\<close> list and \<^verbatim>\<open>checkRequired\<close> off gives \<^verbatim>\<open>{id: number, name: string}\<close>; with
  \<^verbatim>\<open>required: ["id"]\<close> and \<^verbatim>\<open>checkRequired\<close> on it gives \<^verbatim>\<open>{id: number, name?: string}\<close>.
\<close>

theorem propertiesList_object_witness:
  "propertiesList insertion_sort \<lparr>checkRequired = False, exact = False\<rparr>
     (JObj [(''properties'', JObj [(''id'', JObj [(''type'', JStr ''integer'')]),
                                    (''name'', JObj [(''type'', JStr ''string'')])])])
   = Inr (JObj [(''id'', JStr ''number''), (''name'', JStr ''string'')])
   \<and> propertiesList insertion_sort \<lparr>checkRequired = True, exact = False\<rparr>
     (JObj [(''required'', JArr [JStr ''id'']),
            (''properties'', JObj [(''id'', JObj [(''type'', JStr ''integer'')]),
                                    (''name'', JObj [(''type'', JStr ''string'')])])])
   = Inr (JObj [(''id'', JStr ''number''), (''name?'', JStr ''string'')])"
  using propertiesList_object [of
      "[(''properties'', JObj [(''id'', JObj [(''type'', JStr ''integer'')]),
                                (''name'', JObj [(''type'', JStr ''string'')])])]"
      "[(''id'', JObj [(''type'', JStr ''integer'')]), (''name'', JObj [(''type'', JStr ''string'')])]"
      "[]" "[''id'', ''name'']" "\<lparr>checkRequired = False, exact = False\<rparr>" insertion_sort]
    propertiesList_object [of
      "[(''required'', JArr [JStr ''id'']),
        (''properties'', JObj [(''id'', JObj [(''type'', JStr ''integer'')]),
                                (''name'', JObj [(''type'', JStr ''string'')])])]"
      "[(''id'', JObj [(''type'', JStr ''integer'')]), (''name'', JObj [(''type'', JStr ''string'')])]"
      "[JStr ''id'']" "[''id'', ''name?'']" "\<lparr>checkRequired = True, exact = False\<rparr>" insertion_sort]
  by (simp add: js_key_order_def is_array_index_def is_digit_def typeFor.simps typeMapping_at_def
      typeMapping_def)

text \<open>
  Claim C1 as it was stated fails where \<^verbatim>\<open>Object.assign\<close> does not enter one property per
  source at the end of its target.  With \<^verbatim>\<open>checkRequired\<close>, the properties \<^verbatim>\<open>a\<close> (optional)
  and \<^verbatim>\<open>a?\<close> (required) both have the key \<^verbatim>\<open>a?\<close>, the two entries are merged, and the
  mapping has one entry for two properties.  The key \<^verbatim>\<open>__proto__\<close> is assigned through the
  inherited setter and leaves no entry.  With \<^verbatim>\<open>checkRequired\<close>, the properties \<^verbatim>\<open>1\<close>
  (optional) and \<^verbatim>\<open>2\<close> (required) have the keys \<^verbatim>\<open>1?\<close> and \<^verbatim>\<open>2\<close>, and the object lists
  the array index \<^verbatim>\<open>2\<close> first.
\<close>

theorem propertiesList_merged_keys:
  "propertiesList insertion_sort \<lparr>checkRequired = True, exact = False\<rparr>
     (JObj [(''required'', JArr [JStr ''a?'']),
            (''properties'', JObj [(''a'', JObj [(''type'', JStr ''string'')]),
                                    (''a?'', JObj [(''type'', JStr ''integer'')])])])
   = Inr (JObj [(''a?'', JStr ''number'')])
   \<and> propertiesList insertion_sort \<lparr>checkRequired = False, exact = False\<rparr>
     (JObj [(''properties'', JObj [(''__proto__'', JObj [(''type'', JStr ''string'')]),
                                    (''id'', JObj [(''type'', JStr ''integer'')])])])
   = Inr (JObj [(''id'', JStr ''number'')])
   \<and> propertiesList insertion_sort \<lparr>checkRequired = True, exact = False\<rparr>
     (JObj [(''required'', JArr [JStr ''2'']),
            (''properties'', JObj [(''1'', JObj [(''type'', JStr ''string'')]),
                                    (''2'', JObj [(''type'', JStr ''integer'')])])])
   = Inr (JObj [(''2'', JStr ''number''), (''1?'', JStr ''string'')])"
  by (simp add: generator_eval)

section \<open>The Emitter\<close>

subsection \<open>Insertion sort is a comparison sort\<close>


lemma insert_back_hd:
  "insert_back cmp e rs \<noteq> [] \<and> (hd (insert_back cmp e rs) = e \<or> (rs \<noteq> [] \<and> hd (insert_back cmp e rs) = hd rs))"
  by (cases rs) auto

lemma back_allowed_Cons:
  "back_allowed cmp (y # rs) \<longleftrightarrow> (rs = [] \<or> cmp (hd rs) y \<le> 0 \<or> cmp y (hd rs) \<ge> 0) \<and> back_allowed cmp rs"
  by (cases rs) auto

lemma back_allowed_insert_back:
  "back_allowed cmp rs \<Longrightarrow> back_allowed cmp (insert_back cmp e rs)"
proof (induction rs)
  case Nil
  then show ?case by simp
next
  case (Cons t rs)
  show ?case
  proof (cases "cmp t e > 0")
    case True
    have tail: "back_allowed cmp (insert_back cmp e rs)"
      using Cons by (simp add: back_allowed_Cons)
    have "cmp (hd (insert_back cmp e rs)) t \<le> 0 \<or> cmp t (hd (insert_back cmp e rs)) \<ge> 0"
      using insert_back_hd [of cmp e rs] True Cons.prems by (auto simp add: back_allowed_Cons)
    with tail True show ?thesis by (simp add: back_allowed_Cons)
  next
    case False
    with Cons.prems show ?thesis by simp
  qed
qed

lemma neighbours_allowed_snoc:
  "neighbours_allowed cmp (xs @ [y]) \<longleftrightarrow>
     neighbours_allowed cmp xs \<and> (xs = [] \<or> cmp (last xs) y \<le> 0 \<or> cmp y (last xs) \<ge> 0)"
  by (induction cmp xs rule: neighbours_allowed.induct) auto

lemma neighbours_allowed_rev: "neighbours_allowed cmp (rev rs) = back_allowed cmp rs"
  by (induction rs) (auto simp add: neighbours_allowed_snoc back_allowed_Cons last_rev)

lemma mset_insert_back: "mset (insert_back cmp e rs) = add_mset e (mset rs)"
  by (induction rs) auto

lemma foldl_insert_back:
  "back_allowed cmp acc \<Longrightarrow>
   back_allowed cmp (foldl (\<lambda>rs e. insert_back cmp e rs) acc xs)
   \<and> mset (foldl (\<lambda>rs e. insert_back cmp e rs) acc xs) = mset acc + mset xs"
  by (induction xs arbitrary: acc) (auto simp add: back_allowed_insert_back mset_insert_back)

lemma insertion_sort_mset: "mset (insertion_sort cmp xs) = mset xs"
  using foldl_insert_back [of cmp "[]" xs] by (simp add: insertion_sort_def)

lemma insertion_sort_neighbours: "neighbours_allowed cmp (insertion_sort cmp xs)"
  using foldl_insert_back [of cmp "[]" xs] by (simp add: insertion_sort_def neighbours_allowed_rev)

lemma comparison_sort_insertion_sort: "comparison_sort insertion_sort"
  by (simp add: comparison_sort_def insertion_sort_mset insertion_sort_neighbours)

subsection \<open>Binary insertion sort is a comparison sort\<close>

lemma neighbours_allowed_Cons:
  "neighbours_allowed cmp (x # ys) \<longleftrightarrow> (ys = [] \<or> allowed cmp x (hd ys)) \<and> neighbours_allowed cmp ys"
  by (cases ys) (auto simp add: allowed_def)

lemma neighbours_allowed_append:
  "neighbours_allowed cmp (xs @ ys) \<longleftrightarrow>
     neighbours_allowed cmp xs \<and> neighbours_allowed cmp ys
     \<and> (xs = [] \<or> ys = [] \<or> allowed cmp (last xs) (hd ys))"
  by (induction xs) (auto simp add: neighbours_allowed_Cons)

lemma binary_search_bounds:
  assumes "left \<le> right" and "right \<le> length elements"
    and "left = 0 \<or> cmp pivot (elements ! (left - 1)) \<ge> 0"
    and "right = length elements \<or> cmp pivot (elements ! right) < 0"
  shows "left \<le> binary_search cmp pivot elements left right
         \<and> binary_search cmp pivot elements left right \<le> right
         \<and> (binary_search cmp pivot elements left right = 0
            \<or> cmp pivot (elements ! (binary_search cmp pivot elements left right - 1)) \<ge> 0)
         \<and> (binary_search cmp pivot elements left right = length elements
            \<or> cmp pivot (elements ! binary_search cmp pivot elements left right) < 0)"
  using assms
proof (induction cmp pivot elements left right rule: binary_search.induct)
  case (1 cmp pivot elements left right)
  show ?case
  proof (cases "left < right")
    case False
    with "1.prems" have "left = right" by simp
    with "1.prems" False show ?thesis by (simp add: binary_search.simps)
  next
    case True
    let ?mid = "left + (right - left) div 2"
    have mid: "left \<le> ?mid" "?mid < right" using True by auto
    show ?thesis
    proof (cases "cmp pivot (elements ! ?mid) < 0")
      case less: True
      have "left \<le> binary_search cmp pivot elements left ?mid
         \<and> binary_search cmp pivot elements left ?mid \<le> ?mid
         \<and> (binary_search cmp pivot elements left ?mid = 0
            \<or> cmp pivot (elements ! (binary_search cmp pivot elements left ?mid - 1)) \<ge> 0)
         \<and> (binary_search cmp pivot elements left ?mid = length elements
            \<or> cmp pivot (elements ! binary_search cmp pivot elements left ?mid) < 0)"
        using "1.prems" mid less True by (intro "1.IH"(1)) auto
      moreover have "binary_search cmp pivot elements left right = binary_search cmp pivot elements left ?mid"
        using True less by (subst binary_search.simps) (simp add: Let_def)
      ultimately show ?thesis using mid by auto
    next
      case geq: False
      have "?mid + 1 \<le> binary_search cmp pivot elements (?mid + 1) right
         \<and> binary_search cmp pivot elements (?mid + 1) right \<le> right
         \<and> (binary_search cmp pivot elements (?mid + 1) right = 0
            \<or> cmp pivot (elements ! (binary_search cmp pivot elements (?mid + 1) right - 1)) \<ge> 0)
         \<and> (binary_search cmp pivot elements (?mid + 1) right = length elements
            \<or> cmp pivot (elements ! binary_search cmp pivot elements (?mid + 1) right) < 0)"
        using "1.prems" mid geq True by (intro "1.IH"(2)) auto
      moreover have "binary_search cmp pivot elements left right
          = binary_search cmp pivot elements (?mid + 1) right"
        using True geq by (subst binary_search.simps) (simp add: Let_def)
      ultimately show ?thesis using mid by auto
    qed
  qed
qed


lemma neighbours_allowed_take: "neighbours_allowed cmp xs \<Longrightarrow> neighbours_allowed cmp (take n xs)"
  using neighbours_allowed_append [of cmp "take n xs" "drop n xs"] by simp

lemma neighbours_allowed_drop: "neighbours_allowed cmp xs \<Longrightarrow> neighbours_allowed cmp (drop n xs)"
  using neighbours_allowed_append [of cmp "take n xs" "drop n xs"] by simp

lemma last_take: "0 < n \<Longrightarrow> n \<le> length xs \<Longrightarrow> last (take n xs) = xs ! (n - 1)"
proof -
  assume n: "0 < n" "n \<le> length xs"
  then have "take n xs \<noteq> []" by auto
  then have "last (take n xs) = take n xs ! (length (take n xs) - 1)" by (rule last_conv_nth)
  also have "length (take n xs) = n" using n by simp
  also have "take n xs ! (n - 1) = xs ! (n - 1)" using n by simp
  finally show ?thesis .
qed

lemma binary_insert_allowed:
  assumes "neighbours_allowed cmp elements"
  shows "neighbours_allowed cmp (binary_insert cmp elements pivot)"
proof -
  let ?p = "binary_search cmp pivot elements 0 (length elements)"
  have bounds: "?p \<le> length elements"
    and before: "?p = 0 \<or> cmp pivot (elements ! (?p - 1)) \<ge> 0"
    and after: "?p = length elements \<or> cmp pivot (elements ! ?p) < 0"
    using binary_search_bounds [of 0 "length elements" elements cmp pivot] by auto
  have "take ?p elements = [] \<or> allowed cmp (last (take ?p elements)) pivot"
  proof (cases "?p = 0")
    case True
    then show ?thesis by simp
  next
    case False
    then have "last (take ?p elements) = elements ! (?p - 1)"
      using bounds by (simp add: last_take)
    then show ?thesis using before False by (simp add: allowed_def)
  qed
  moreover have "drop ?p elements = [] \<or> allowed cmp pivot (hd (drop ?p elements))"
  proof (cases "?p = length elements")
    case True
    then show ?thesis by simp
  next
    case False
    then have "hd (drop ?p elements) = elements ! ?p"
      using bounds by (simp add: hd_drop_conv_nth)
    then show ?thesis using after False by (simp add: allowed_def)
  qed
  ultimately show ?thesis
    using neighbours_allowed_take [OF assms, of ?p] neighbours_allowed_drop [OF assms, of ?p]
    by (auto simp add: binary_insert_def Let_def neighbours_allowed_append neighbours_allowed_Cons)
qed

lemma mset_binary_insert: "mset (binary_insert cmp elements pivot) = add_mset pivot (mset elements)"
proof -
  have "mset (take n elements) + mset (drop n elements) = mset elements" for n
    by (metis append_take_drop_id mset_append)
  then show ?thesis by (simp add: binary_insert_def Let_def)
qed

lemma foldl_binary_insert:
  "neighbours_allowed cmp run \<Longrightarrow>
   neighbours_allowed cmp (foldl (binary_insert cmp) run rest)
   \<and> mset (foldl (binary_insert cmp) run rest) = mset run + mset rest"
  by (induction rest arbitrary: run) (auto simp add: binary_insert_allowed mset_binary_insert)

lemma descending_run_allowed:
  "descending_run cmp previous xs = (run, rest) \<Longrightarrow>
   xs = run @ rest \<and> back_allowed cmp (previous # run)"
proof (induction xs arbitrary: previous run rest)
  case Nil
  then show ?case by simp
next
  case (Cons x xs)
  show ?case
  proof (cases "cmp x previous < 0")
    case True
    obtain run' rest' where r: "descending_run cmp x xs = (run', rest')"
      by (cases "descending_run cmp x xs")
    with Cons.prems True have "run = x # run'" "rest = rest'" by simp_all
    moreover have "xs = run' @ rest' \<and> back_allowed cmp (x # run')"
      using r by (rule Cons.IH)
    ultimately show ?thesis using True by simp
  next
    case False
    with Cons.prems show ?thesis by simp
  qed
qed

lemma ascending_run_allowed:
  "ascending_run cmp previous xs = (run, rest) \<Longrightarrow>
   xs = run @ rest \<and> neighbours_allowed cmp (previous # run)"
proof (induction xs arbitrary: previous run rest)
  case Nil
  then show ?case by simp
next
  case (Cons x xs)
  show ?case
  proof (cases "cmp x previous \<ge> 0")
    case True
    obtain run' rest' where r: "ascending_run cmp x xs = (run', rest')"
      by (cases "ascending_run cmp x xs")
    with Cons.prems True have "run = x # run'" "rest = rest'" by simp_all
    moreover have "xs = run' @ rest' \<and> neighbours_allowed cmp (x # run')"
      using r by (rule Cons.IH)
    ultimately show ?thesis using True by simp
  next
    case False
    with Cons.prems show ?thesis by simp
  qed
qed

lemma count_and_make_run_allowed:
  assumes "count_and_make_run cmp xs = (run, rest)"
  shows "neighbours_allowed cmp run \<and> mset run + mset rest = mset xs"
proof (cases xs)
  case Nil
  with assms show ?thesis by simp
next
  case (Cons a tail)
  show ?thesis
  proof (cases tail)
    case Nil
    with assms Cons show ?thesis by auto
  next
    case (Cons b ys)
    with \<open>xs = a # tail\<close> have xs: "xs = a # b # ys" by simp
    show ?thesis
    proof (cases "cmp b a < 0")
      case True
      obtain run' rest' where r: "descending_run cmp b ys = (run', rest')"
        by (cases "descending_run cmp b ys")
      have "ys = run' @ rest'" and "back_allowed cmp (b # run')"
        using descending_run_allowed [OF r] by simp_all
      moreover have run: "run = rev (a # b # run')" and "rest = rest'"
        using assms xs True r by simp_all
      moreover have "back_allowed cmp (a # b # run')"
        using True \<open>back_allowed cmp (b # run')\<close> by simp
      then have "neighbours_allowed cmp (rev (a # b # run'))"
        by (simp only: neighbours_allowed_rev)
      ultimately show ?thesis using xs by simp
    next
      case False
      obtain run' rest' where r: "ascending_run cmp b ys = (run', rest')"
        by (cases "ascending_run cmp b ys")
      have "ys = run' @ rest'" and "neighbours_allowed cmp (b # run')"
        using ascending_run_allowed [OF r] by simp_all
      moreover have "run = a # b # run'" "rest = rest'"
        using assms xs False r by simp_all
      ultimately show ?thesis using xs False by simp
    qed
  qed
qed

lemma comparison_sort_binary_insertion_sort: "comparison_sort binary_insertion_sort"
proof -
  have "mset (binary_insertion_sort cmp xs) = mset xs
      \<and> neighbours_allowed cmp (binary_insertion_sort cmp xs)" for cmp :: "string \<Rightarrow> string \<Rightarrow> int" and xs
  proof -
    obtain run rest where r: "count_and_make_run cmp xs = (run, rest)"
      by (cases "count_and_make_run cmp xs")
    from count_and_make_run_allowed [OF r] foldl_binary_insert [of cmp run rest] r
    show ?thesis by (simp add: binary_insertion_sort_def)
  qed
  then show ?thesis by (simp add: comparison_sort_def)
qed

text \<open>The two implementations order the same four texts differently: the object literals
  come first in both, in either order, and so do the ref operands after them.\<close>

lemma sort_depends_on_engine:
  "insertion_sort refs_last [''& Base'', ''{a}'', ''& Named'', ''{b}'']
     = [''{a}'', ''{b}'', ''& Named'', ''& Base'']
   \<and> binary_insertion_sort refs_last [''& Base'', ''{a}'', ''& Named'', ''{b}'']
     = [''{b}'', ''{a}'', ''& Base'', ''& Named'']"
  by (simp add: insertion_sort_def binary_insertion_sort_def binary_insert_def binary_search.simps
      refs_last_def starts_with_amp_def)

subsection \<open>What the comparator of the emitter forces\<close>

lemma neighbours_allowed_refs_after:
  "neighbours_allowed refs_last (x # ys) \<Longrightarrow> starts_with_amp x \<Longrightarrow> \<forall>y \<in> set ys. starts_with_amp y"
  by (induction ys arbitrary: x) (auto simp add: refs_last_def split: if_splits)

lemma neighbours_allowed_suffix:
  "neighbours_allowed cmp (xs @ ys) \<Longrightarrow> neighbours_allowed cmp ys"
  by (induction cmp xs rule: neighbours_allowed.induct) (auto, (cases ys; simp)+)

lemma neighbours_allowed_split:
  assumes "neighbours_allowed refs_last ys"
  shows "ys = filter (\<lambda>t. \<not> starts_with_amp t) ys @ filter (\<lambda>t. starts_with_amp t) ys"
proof -
  let ?P = "\<lambda>t. \<not> starts_with_amp t"
  have split: "ys = takeWhile ?P ys @ dropWhile ?P ys" by simp
  have refs: "\<forall>t \<in> set (dropWhile ?P ys). starts_with_amp t"
  proof (cases "dropWhile ?P ys")
    case Nil
    show ?thesis unfolding Nil by simp
  next
    case (Cons r rest)
    have r: "starts_with_amp r" using Cons by (simp add: dropWhile_eq_Cons_conv)
    have "neighbours_allowed refs_last (takeWhile ?P ys @ r # rest)"
      using assms Cons by (metis takeWhile_dropWhile_id)
    then have "neighbours_allowed refs_last (r # rest)"
      by (rule neighbours_allowed_suffix)
    then have "\<forall>y \<in> set rest. starts_with_amp y"
      using r by (rule neighbours_allowed_refs_after)
    with r show ?thesis unfolding Cons by simp
  qed
  have objs: "\<forall>t \<in> set (takeWhile ?P ys). ?P t"
    by (auto dest: set_takeWhileD)
  have a1: "filter ?P (takeWhile ?P ys) = takeWhile ?P ys"
    by (rule filter_True) (use objs in blast)
  have a2: "filter ?P (dropWhile ?P ys) = []"
    by (rule filter_False) (use refs in blast)
  have b1: "filter (\<lambda>t. starts_with_amp t) (takeWhile ?P ys) = []"
    by (rule filter_False) (use objs in blast)
  have b2: "filter (\<lambda>t. starts_with_amp t) (dropWhile ?P ys) = dropWhile ?P ys"
    by (rule filter_True) (use refs in blast)
  have "filter ?P ys = filter ?P (takeWhile ?P ys @ dropWhile ?P ys)" by simp
  then have a: "filter ?P ys = takeWhile ?P ys"
    unfolding filter_append a1 a2 by simp
  have "filter (\<lambda>t. starts_with_amp t) ys
      = filter (\<lambda>t. starts_with_amp t) (takeWhile ?P ys @ dropWhile ?P ys)" by simp
  then have b: "filter (\<lambda>t. starts_with_amp t) ys = dropWhile ?P ys"
    unfolding filter_append b1 b2 by simp
  show ?thesis unfolding a b by simp
qed

subsection \<open>Rendering the members\<close>

lemma render_member_marker:
  "is_marker m \<Longrightarrow> render_member cfg m = Inr (Some (''& '' @ marker_name m))"
  by (erule is_marker.elims) (simp_all add: render_member_def)
lemma map_of_type_expression:
  "list_all is_type_expression (map snd kvs) \<Longrightarrow> map_of kvs k = Some v \<Longrightarrow> is_type_expression v"
  by (induction kvs) (auto split: if_splits)

lemma toJSON_value_plain:
  assumes "toJSON_value key kvs = Inr (Some r)"
  shows "r \<noteq> JObj kvs \<and> (\<forall>es. r = JObj es \<longrightarrow> es = []) \<and> (\<forall>xs. r \<noteq> JArr xs)"
proof -
  have member: "r' = JObj kvs \<or> r' = JObj [] \<or> (\<forall>es. r' \<noteq> JObj es) \<and> (\<forall>xs. r' \<noteq> JArr xs)"
    if "call_member n kvs a = Inr r'" for n a r'
    using that by (auto simp add: call_member_def Let_def split: if_splits jsval.splits)
  have builtin: "r' = JObj kvs \<or> r' = JObj [] \<or> (\<forall>es. r' \<noteq> JObj es) \<and> (\<forall>xs. r' \<noteq> JArr xs)"
    if "call_builtin n kvs a = Inr r'" for n a r'
    using that member
    by (auto simp add: call_builtin_def split: if_splits option.splits jsval.splits)
  from assms obtain n where "call_builtin n kvs (JStr key) = Inr r" and "r \<noteq> JObj kvs"
    by (auto simp add: toJSON_value_def split: option.splits jsval.splits if_splits sum.splits)
  with builtin [of n "JStr key" r] show ?thesis by auto
qed

lemma toJSON_value_mapping:
  assumes "list_all is_type_expression (map snd kvs)"
  shows "toJSON_value key kvs = Inr None"
proof (cases "map_of kvs ''toJSON''")
  case None
  then show ?thesis by (simp add: toJSON_value_def)
next
  case (Some v)
  with assms have "is_type_expression v" by (rule map_of_type_expression)
  then obtain t where "v = JStr t" by (cases v) simp_all
  with Some show ?thesis by (simp add: toJSON_value_def)
qed

lemma try_map_entries:
  "list_all is_type_expression (map snd kvs) \<Longrightarrow>
   try_map (\<lambda>(k, v). case serialize k v of
                        Inl e \<Rightarrow> Inl e
                      | Inr None \<Rightarrow> Inr []
                      | Inr (Some j) \<Rightarrow> Inr [json_quote k @ '':'' @ j]) kvs
     = Inr (map (\<lambda>kv. [entry_text kv]) kvs)"
proof (induction kvs)
  case Nil
  then show ?case by simp
next
  case (Cons kv kvs)
  obtain k v where kv: "kv = (k, v)" by (cases kv)
  with Cons.prems obtain t where "v = JStr t" by (cases v) simp_all
  with kv Cons show ?case by simp
qed

lemma concat_singletons: "concat (map (\<lambda>x. [f x]) xs) = map f xs"
  by (induction xs) simp_all

lemma stringify_mapping: "is_mapping m \<Longrightarrow> stringify m = Inr (Some (object_literal m))"
  by (cases m)
     (simp_all add: is_mapping_def stringify_def object_literal_def toJSON_value_mapping
        try_map_entries concat_singletons)

lemma render_member_mapping:
  "is_mapping m \<Longrightarrow> \<not> exact cfg \<Longrightarrow> render_member cfg m = Inr (Some (object_literal m))"
  by (cases m)
     (simp_all add: stringify_mapping render_member_def, simp_all add: is_mapping_def map_of_absent)

lemma marker_not_mapping: "is_marker m \<Longrightarrow> \<not> is_mapping m"
  by (erule is_marker.elims) (simp_all add: is_mapping_def)

lemma object_literal_brace: "is_mapping m \<Longrightarrow> \<not> starts_with_amp (object_literal m)"
  by (cases m) (simp_all add: is_mapping_def object_literal_def starts_with_amp_def)

lemma marker_text_amp: "starts_with_amp (''& '' @ n)"
  by (simp add: starts_with_amp_def)

lemma member_text_marker: "is_marker m \<Longrightarrow> member_text m = ''& '' @ marker_name m"
  by (simp add: member_text_def)

lemma member_text_mapping: "is_mapping m \<Longrightarrow> member_text m = object_literal m"
  using marker_not_mapping by (auto simp add: member_text_def)

lemma try_map_render_member:
  "\<forall>m \<in> set members. is_marker m \<or> is_mapping m \<Longrightarrow> \<not> exact cfg \<Longrightarrow>
   try_map (render_member cfg) members = Inr (map (\<lambda>m. Some (member_text m)) members)"
  by (induction members)
     (auto simp add: render_member_marker render_member_mapping member_text_marker
        member_text_mapping)

lemma array_sort_defined:
  "array_sort srt cmp (map Some ts) = map Some (srt cmp ts)"
proof -
  have "concat (map (\<lambda>x. case x of None \<Rightarrow> [] | Some s \<Rightarrow> [s]) (map Some ts)) = ts"
    by (induction ts) simp_all
  moreover have "filter (\<lambda>x. x = None) (map Some ts) = []"
    by (induction ts) simp_all
  ultimately show ?thesis by (simp add: array_sort_def)
qed

lemma unwrap_defined:
  "map (\<lambda>p. case p of None \<Rightarrow> [] | Some s \<Rightarrow> s) (map Some ts) = ts"
  by (induction ts) simp_all

lemma propertiesTemplate_members:
  assumes "\<forall>m \<in> set members. is_marker m \<or> is_mapping m" and "\<not> exact cfg"
  shows "propertiesTemplate srt cfg (JArr members)
         = Inr (JStr (join '' '' (srt refs_last (map member_text members))))"
proof -
  have "map (\<lambda>m. Some (member_text m)) members = map Some (map member_text members)"
    by simp
  then have "try_map (render_member cfg) members = Inr (map Some (map member_text members))"
    using try_map_render_member [OF assms] by simp
  then show ?thesis
    by (simp only: propertiesTemplate_def jsval.case sum.case array_sort_defined unwrap_defined)
qed

lemma filter_member_text:
  assumes "\<forall>m \<in> set members. is_marker m \<or> is_mapping m"
  shows "filter (\<lambda>t. \<not> starts_with_amp t) (map member_text members)
           = map object_literal (filter is_mapping members)"
    and "filter (\<lambda>t. starts_with_amp t) (map member_text members)
           = map (\<lambda>m. ''& '' @ marker_name m) (filter is_marker members)"
  using assms
  by (induction members)
     (auto simp add: member_text_marker member_text_mapping object_literal_brace
        marker_not_mapping marker_text_amp simp del: append.simps)
lemma propertiesTemplate_sorted_members:
  assumes "comparison_sort srt" and "\<forall>m \<in> set members. is_marker m \<or> is_mapping m"
    and "\<not> exact cfg"
  shows "\<exists>objects refs.
           propertiesTemplate srt cfg (JArr members) = Inr (JStr (join '' '' (objects @ refs)))
           \<and> mset objects = mset (map object_literal (filter is_mapping members))
           \<and> mset refs = mset (map (\<lambda>m. ''& '' @ marker_name m) (filter is_marker members))"
proof -
  let ?texts = "map member_text members"
  let ?ys = "srt refs_last ?texts"
  let ?objects = "filter (\<lambda>t. \<not> starts_with_amp t) ?ys"
  let ?refs = "filter (\<lambda>t. starts_with_amp t) ?ys"
  have "\<forall>a b. refs_last a b \<noteq> 0"
    by (simp add: refs_last_def)
  then have perm: "mset ?ys = mset ?texts" and chain: "neighbours_allowed refs_last ?ys"
    using assms(1) unfolding comparison_sort_def by blast+
  have "?ys = ?objects @ ?refs"
    using chain by (rule neighbours_allowed_split)
  then have "propertiesTemplate srt cfg (JArr members) = Inr (JStr (join '' '' (?objects @ ?refs)))"
    using propertiesTemplate_members [OF assms(2,3), of srt] by simp
  moreover have "mset ?objects = mset (map object_literal (filter is_mapping members))"
    using perm filter_member_text(1) [OF assms(2)] by (metis mset_filter)
  moreover have "mset ?refs = mset (map (\<lambda>m. ''& '' @ marker_name m) (filter is_marker members))"
    using perm filter_member_text(2) [OF assms(2)] by (metis mset_filter)
  ultimately show ?thesis by blast
qed

lemma allOf_example:
  assumes "comparison_sort srt"
  shows "generateTypeFile srt \<lparr>checkRequired = False, exact = False\<rparr>
           \<lparr>title = ''Pet'',
            properties = JArr [JObj [(''$ref'', JStr ''Base'')], JObj [(''extra'', JStr ''string'')]],
            imports' = []\<rparr>
         = Inr ''export type Pet = {extra:string} & Base;''"
proof -
  let ?cfg = "\<lparr>checkRequired = False, exact = False\<rparr>"
  let ?members = "[JObj [(''$ref'', JStr ''Base'')], JObj [(''extra'', JStr ''string'')]]"
  have "\<forall>m \<in> set ?members. is_marker m \<or> is_mapping m"
    by (simp add: is_mapping_def)
  moreover have "\<not> exact ?cfg" by simp
  ultimately obtain objects refs where
    rendered: "propertiesTemplate srt ?cfg (JArr ?members) = Inr (JStr (join '' '' (objects @ refs)))"
    and "mset objects = mset (map object_literal (filter is_mapping ?members))"
    and "mset refs = mset (map (\<lambda>m. ''& '' @ marker_name m) (filter is_marker ?members))"
    using propertiesTemplate_sorted_members [OF assms, of ?members ?cfg] by blast
  then have "objects = [object_literal (JObj [(''extra'', JStr ''string'')])]"
    and "refs = [''& Base'']"
    by (simp_all add: is_mapping_def)
  then show ?thesis using rendered
    by (simp add: generateTypeFile_def importTemplates_def array_from_set_def replace_dquotes_def
        object_literal_def json_quote_def json_escape_def)
qed

lemma allOf_example_list:
  "propertiesList srt \<lparr>checkRequired = False, exact = False\<rparr>
     (JObj [(''allOf'', JArr [JObj [(''$ref'', JStr ''#/definitions/Base'')],
                              JObj [(''properties'', JObj [(''extra'', JObj [(''type'', JStr ''string'')])])]])])
   = Inr (JArr [JObj [(''$ref'', JStr ''Base'')], JObj [(''extra'', JStr ''string'')]])"
  by (simp add: generator_eval)

text \<open>
  Claim C2, as amended: let the sorting procedure of the engine be a comparison sort in
  the sense above, let \<^verbatim>\<open>exact\<close> be off, and let every member of an \<^verbatim>\<open>allOf\<close> Property-List
  be a \<^verbatim>\<open>$ref\<close> marker with a name that is not empty or a property mapping.  Then
  \<^verbatim>\<open>propertiesTemplate\<close> gives the texts of the members joined by single spaces, every
  mapping as its object literal and every marker as \<^verbatim>\<open>& ResolvedName\<close>, all object
  literals before all markers.  The \<^verbatim>\<open>allOf\<close> of \<^verbatim>\<open>{$ref: "#/definitions/Base"}\<close> and
  \<^verbatim>\<open>{properties: {extra: {type: string}}}\<close> gives the list of the marker \<^verbatim>\<open>Base\<close> and the
  mapping \<^verbatim>\<open>{extra: string}\<close>, and the declaration, quotes deleted and not yet formatted,
  is \<^verbatim>\<open>export type Pet = {extra:string} & Base;\<close>.
\<close>

theorem propertiesTemplate_allOf:
  assumes "comparison_sort srt" and "\<forall>m \<in> set members. is_marker m \<or> is_mapping m"
    and "\<not> exact cfg"
  shows "(\<exists>objects refs.
            propertiesTemplate srt cfg (JArr members) = Inr (JStr (join '' '' (objects @ refs)))
            \<and> mset objects = mset (map object_literal (filter is_mapping members))
            \<and> mset refs = mset (map (\<lambda>m. ''& '' @ marker_name m) (filter is_marker members)))
         \<and> propertiesList srt \<lparr>checkRequired = False, exact = False\<rparr>
             (JObj [(''allOf'', JArr [JObj [(''$ref'', JStr ''#/definitions/Base'')],
                                      JObj [(''properties'',
                                             JObj [(''extra'', JObj [(''type'', JStr ''string'')])])]])])
           = Inr (JArr [JObj [(''$ref'', JStr ''Base'')], JObj [(''extra'', JStr ''string'')]])
         \<and> generateTypeFile srt \<lparr>checkRequired = False, exact = False\<rparr>
             \<lparr>title = ''Pet'',
              properties = JArr [JObj [(''$ref'', JStr ''Base'')], JObj [(''extra'', JStr ''string'')]],
              imports' = []\<rparr>
           = Inr ''export type Pet = {extra:string} & Base;''"
  using propertiesTemplate_sorted_members [OF assms] allOf_example [OF assms(1)]
    allOf_example_list [of srt]
  by (intro conjI)

text \<open>
  Insertion sort on two markers and two mappings: the object literals come first and the
  markers follow.  The order inside either group is the one this sorting procedure gives
  (it turns the markers round); the example of the specification has one member of each
  kind and one order.
\<close>

theorem propertiesTemplate_allOf_witness:
  "comparison_sort insertion_sort
   \<and> is_marker (JObj [(''$ref'', JStr ''Base'')]) \<and> is_mapping (JObj [(''extra'', JStr ''string'')])
   \<and> is_marker (JObj [(''$ref'', JStr ''Named'')])
   \<and> is_mapping (JObj [(''id'', JStr ''number''), (''tag'', JStr ''string'')])
   \<and> \<not> exact \<lparr>checkRequired = True, exact = False\<rparr>
   \<and> propertiesTemplate insertion_sort \<lparr>checkRequired = True, exact = False\<rparr>
        (JArr [JObj [(''$ref'', JStr ''Base'')], JObj [(''extra'', JStr ''string'')],
               JObj [(''$ref'', JStr ''Named'')],
               JObj [(''id'', JStr ''number''), (''tag'', JStr ''string'')]])
     = Inr (JStr (''{'' @ [dquote] @ ''extra'' @ [dquote] @ '':'' @ [dquote] @ ''string'' @ [dquote]
                  @ ''} {'' @ [dquote] @ ''id'' @ [dquote] @ '':'' @ [dquote] @ ''number''
                  @ [dquote] @ '','' @ [dquote] @ ''tag'' @ [dquote] @ '':'' @ [dquote]
                  @ ''string'' @ [dquote] @ ''} & Named & Base''))
   \<and> generateTypeFile insertion_sort \<lparr>checkRequired = False, exact = False\<rparr>
        \<lparr>title = ''Pet'',
         properties = JArr [JObj [(''$ref'', JStr ''Base'')], JObj [(''extra'', JStr ''string'')]],
         imports' = []\<rparr>
     = Inr ''export type Pet = {extra:string} & Base;''"
  using propertiesTemplate_allOf [OF comparison_sort_insertion_sort,
      of "[JObj [(''$ref'', JStr ''Base'')], JObj [(''extra'', JStr ''string'')],
           JObj [(''$ref'', JStr ''Named'')],
           JObj [(''id'', JStr ''number''), (''tag'', JStr ''string'')]]"
      "\<lparr>checkRequired = True, exact = False\<rparr>"]
  by (simp add: comparison_sort_insertion_sort is_mapping_def generator_eval)

text \<open>
  Claim C2 as it was stated fails on five kinds of member.  A member with a type other
  than \<^verbatim>\<open>object\<close> is a bare type expression, and its text is a quoted string, no object
  literal.  A pointer that does not match resolves to the empty name, the marker
  \<^verbatim>\<open>{ $ref: "" }\<close> is falsy in the test \<^verbatim>\<open>property.$ref\<close>, and it is rendered by
  \<^verbatim>\<open>JSON.stringify\<close> and not as an operand \<^verbatim>\<open>& \<close>.  A mapping with a property named \<^verbatim>\<open>$ref\<close>
  passes the same test and is rendered as a ref operand.  A property \<^verbatim>\<open>toJSON\<close> with the
  type \<^verbatim>\<open>hasOwnProperty\<close> gets the function of that name from the table of types;
  \<^verbatim>\<open>JSON.stringify\<close> calls it on the mapping with the key \<^verbatim>\<open>""\<close> and writes its answer,
  \<^verbatim>\<open>false\<close>, for the mapping.  With \<^verbatim>\<open>exact\<close>, the mapping with no property is rendered as
  \<^verbatim>\<open>{|\<close>.  The lists are chosen so that the order does not depend on the sorting procedure:
  one member, or one text of each kind.
\<close>

theorem propertiesTemplate_allOf_other_members:
  "propertiesList insertion_sort \<lparr>checkRequired = False, exact = False\<rparr>
     (JObj [(''allOf'', JArr [JObj [(''type'', JStr ''string'')],
                              JObj [(''$ref'', JStr ''#/definitions/Base'')]])])
   = Inr (JArr [JStr ''string'', JObj [(''$ref'', JStr ''Base'')]])
   \<and> propertiesTemplate insertion_sort \<lparr>checkRequired = False, exact = False\<rparr>
        (JArr [JStr ''string'', JObj [(''$ref'', JStr ''Base'')]])
     = Inr (JStr ([dquote] @ ''string'' @ [dquote] @ '' & Base''))
   \<and> propertiesList insertion_sort \<lparr>checkRequired = False, exact = False\<rparr>
        (JObj [(''allOf'', JArr [JObj [(''$ref'', JStr ''#/nowhere/X'')]])])
     = Inr (JArr [JObj [(''$ref'', JStr [])]])
   \<and> propertiesTemplate insertion_sort \<lparr>checkRequired = False, exact = False\<rparr>
        (JArr [JObj [(''$ref'', JStr [])]])
     = Inr (JStr (''{'' @ [dquote] @ ''$ref'' @ [dquote] @ '':'' @ [dquote, dquote] @ ''}''))
   \<and> propertiesList insertion_sort \<lparr>checkRequired = False, exact = False\<rparr>
        (JObj [(''allOf'', JArr [JObj [(''properties'',
                                        JObj [(''$ref'', JObj [(''type'', JStr ''string'')])])]])])
     = Inr (JArr [JObj [(''$ref'', JStr ''string'')]])
   \<and> propertiesTemplate insertion_sort \<lparr>checkRequired = False, exact = False\<rparr>
        (JArr [JObj [(''$ref'', JStr ''string'')]])
     = Inr (JStr ''& string'')
   \<and> propertiesList insertion_sort \<lparr>checkRequired = False, exact = False\<rparr>
        (JObj [(''allOf'', JArr [JObj [(''$ref'', JStr ''#/definitions/Base'')],
                                 JObj [(''properties'',
                                        JObj [(''toJSON'', JObj [(''type'', JStr ''hasOwnProperty'')]),
                                              (''id'', JObj [(''type'', JStr ''integer'')])])]])])
     = Inr (JArr [JObj [(''$ref'', JStr ''Base'')],
                  JObj [(''toJSON'', JBuiltin ''hasOwnProperty''), (''id'', JStr ''number'')]])
   \<and> propertiesTemplate insertion_sort \<lparr>checkRequired = False, exact = False\<rparr>
        (JArr [JObj [(''$ref'', JStr ''Base'')],
               JObj [(''toJSON'', JBuiltin ''hasOwnProperty''), (''id'', JStr ''number'')]])
     = Inr (JStr ''false & Base'')
   \<and> propertiesList insertion_sort \<lparr>checkRequired = False, exact = True\<rparr>
        (JObj [(''allOf'', JArr [JObj [(''$ref'', JStr ''#/definitions/Base'')],
                                 JObj [(''type'', JStr ''object'')]])])
     = Inr (JArr [JObj [(''$ref'', JStr ''Base'')], JObj []])
   \<and> propertiesTemplate insertion_sort \<lparr>checkRequired = False, exact = True\<rparr>
        (JArr [JObj [(''$ref'', JStr ''Base'')], JObj []])
     = Inr (JStr ''{| & Base'')"
  by (simp add: generator_eval)

subsection \<open>The exact-object rewriting\<close>

text \<open>
  Claim C3: with \<^verbatim>\<open>exact\<close>, a marker is said to be inserted inside the two braces of every
  rendered object literal, the neighbouring text kept, and a ref operand left as it is.
  \<^verbatim>\<open>withExact\<close> replaces \<^verbatim>\<open>/{[^|]/\<close> by \<^verbatim>\<open>{|\<close> and \<^verbatim>\<open>/[^|]}/\<close> by \<^verbatim>\<open>|}\<close>, so it overwrites the
  character next to a brace.  In \<^verbatim>\<open>{"id":"number","tag":"string"}\<close> these characters are
  quotes, which the emitter deletes anyway, and the declaration is as claimed.  In the
  literal \<^verbatim>\<open>{}\<close> of a definition with no properties the character behind the opening
  brace is the closing brace: the result is \<^verbatim>\<open>{|\<close>, and the declaration
  \<^verbatim>\<open>export type Empty = {|;\<close>.
\<close>

theorem withExact_empty_object:
  "propertiesList srt cfg (JObj [(''type'', JStr ''object'')]) = Inr (JObj [])
   \<and> withExact ''{}'' = ''{|''
   \<and> generateTypeFile srt \<lparr>checkRequired = False, exact = True\<rparr>
        \<lparr>title = ''Empty'', properties = JObj [], imports' = []\<rparr>
       = Inr ''export type Empty = {|;''
   \<and> generateTypeFile srt \<lparr>checkRequired = False, exact = True\<rparr>
        \<lparr>title = ''Pet'', properties = JObj [(''id'', JStr ''number''), (''tag'', JStr ''string'')],
         imports' = []\<rparr>
       = Inr ''export type Pet = {|id:number,tag:string|};''
   \<and> render_member \<lparr>checkRequired = False, exact = True\<rparr> (JObj [(''$ref'', JStr ''Base'')])
       = Inr (Some ''& Base'')"
  by (simp add: generator_eval)

subsection \<open>The declaration text\<close>

text \<open>
  Claim C10: \<^verbatim>\<open>generateTypeFile\<close> returns a text exactly when \<^verbatim>\<open>propertiesTemplate\<close> renders
  the properties as a string and the import lines can be written; the text is then the
  import lines, \<^verbatim>\<open>export type\<close>, the title, \<^verbatim>\<open> = \<close>, the rendered expression with every
  double quote deleted, and \<^verbatim>\<open>;\<close>.  The expression part holds no double quote.
\<close>

theorem generateTypeFile_no_dquote:
  "(generateTypeFile srt cfg d = Inr text \<longleftrightarrow>
      (\<exists>rendered imports_text.
         propertiesTemplate srt cfg (properties d) = Inr (JStr rendered)
         \<and> importTemplates d = Inr imports_text
         \<and> text = imports_text @ ''export type '' @ title d @ '' = ''
                  @ filter (\<lambda>c. c \<noteq> dquote) rendered @ '';''))
   \<and> dquote \<notin> set (filter (\<lambda>c. c \<noteq> dquote) rendered)"
  by (auto simp add: generateTypeFile_def replace_dquotes_def split: sum.splits jsval.splits)

text \<open>
  A property name \<^verbatim>\<open>a"b\<close> and an enum value \<^verbatim>\<open>x"y\<close>: \<^verbatim>\<open>JSON.stringify\<close> writes the quote as
  backslash and quote, the emitter deletes the quote, and the backslash stays.
\<close>

theorem generateTypeFile_no_dquote_witness:
  "propertiesList insertion_sort \<lparr>checkRequired = False, exact = False\<rparr>
     (JObj [(''properties'',
             JObj [(''a'' @ [dquote] @ ''b'',
                    JObj [(''type'', JStr ''string''),
                          (''enum'', JArr [JStr (''x'' @ [dquote] @ ''y'')])])])])
   = Inr (JObj [(''a'' @ [dquote] @ ''b'', JStr ([squote] @ ''x'' @ [dquote] @ ''y'' @ [squote]))])
   \<and> generateTypeFile insertion_sort \<lparr>checkRequired = False, exact = False\<rparr>
        \<lparr>title = ''T'',
         properties = JObj [(''a'' @ [dquote] @ ''b'',
                             JStr ([squote] @ ''x'' @ [dquote] @ ''y'' @ [squote]))],
         imports' = []\<rparr>
     = Inr (''export type T = {a'' @ [backslash] @ ''b:'' @ [squote] @ ''x'' @ [backslash] @ ''y''
            @ [squote] @ ''};'')"
  using generateTypeFile_no_dquote [of insertion_sort "\<lparr>checkRequired = False, exact = False\<rparr>"
      "\<lparr>title = ''T'',
        properties = JObj [(''a'' @ [dquote] @ ''b'',
                            JStr ([squote] @ ''x'' @ [dquote] @ ''y'' @ [squote]))],
        imports' = []\<rparr>"
      "''export type T = {a'' @ [backslash] @ ''b:'' @ [squote] @ ''x'' @ [backslash] @ ''y''
            @ [squote] @ ''};''"]
  by (simp add: generator_eval)

section \<open>The Import Resolver\<close>










section \<open>The Definition Collector\<close>

text \<open>
  Claim C4: for a document that is an object, when it has no property \<^verbatim>\<open>definitions\<close> and
  either no property \<^verbatim>\<open>components\<close> or a \<^verbatim>\<open>components\<close> object with no property \<^verbatim>\<open>schemas\<close>,
  \<^verbatim>\<open>generatorArray\<close> ends with the error \<^verbatim>\<open>There is no definition\<close> and returns no
  definitions.  When \<^verbatim>\<open>definitions\<close> is a map, or \<^verbatim>\<open>components.schemas\<close> is one, it does not
  end with that error.
\<close>

theorem generatorArray_no_definition:
  "(map_of doc ''definitions'' = None
      \<and> (map_of doc ''components'' = None
          \<or> (\<exists>c. map_of doc ''components'' = Some (JObj c) \<and> map_of c ''schemas'' = None))
     \<longrightarrow> generatorArray srt cfg (JObj doc) = Inl NoDefinition)
   \<and> ((\<exists>m. map_of doc ''definitions'' = Some (JObj m))
        \<or> (\<exists>c m. map_of doc ''components'' = Some (JObj c) \<and> map_of c ''schemas'' = Some (JObj m))
     \<longrightarrow> generatorArray srt cfg (JObj doc) \<noteq> Inl NoDefinition)"
proof (intro conjI impI)
  assume "map_of doc ''definitions'' = None
      \<and> (map_of doc ''components'' = None
          \<or> (\<exists>c. map_of doc ''components'' = Some (JObj c) \<and> map_of c ''schemas'' = None))"
  then show "generatorArray srt cfg (JObj doc) = Inl NoDefinition"
    by (auto simp add: generatorArray_def)
next
  assume "(\<exists>m. map_of doc ''definitions'' = Some (JObj m))
      \<or> (\<exists>c m. map_of doc ''components'' = Some (JObj c) \<and> map_of c ''schemas'' = Some (JObj m))"
  then consider (definitions) m where "map_of doc ''definitions'' = Some (JObj m)"
    | (schemas) c m where "map_of doc ''components'' = Some (JObj c)"
        and "map_of c ''schemas'' = Some (JObj m)"
    by blast
  then show "generatorArray srt cfg (JObj doc) \<noteq> Inl NoDefinition"
  proof cases
    case definitions
    then show ?thesis
      by (simp add: generatorArray_def split: sum.splits)
  next
    case schemas
    then show ?thesis
      by (auto simp add: generatorArray_def split: sum.splits option.splits)
  qed
qed

text \<open>The documents \<^verbatim>\<open>{}\<close> and \<^verbatim>\<open>{components: {securitySchemes: {}}}\<close> on one side,
  \<^verbatim>\<open>{definitions: {}}\<close> and \<^verbatim>\<open>{components: {schemas: {}}}\<close> on the other.\<close>

theorem generatorArray_no_definition_witness:
  "generatorArray insertion_sort \<lparr>checkRequired = False, exact = False\<rparr> (JObj []) = Inl NoDefinition
   \<and> generatorArray insertion_sort \<lparr>checkRequired = False, exact = False\<rparr>
        (JObj [(''components'', JObj [(''securitySchemes'', JObj [])])]) = Inl NoDefinition
   \<and> generatorArray insertion_sort \<lparr>checkRequired = False, exact = False\<rparr>
        (JObj [(''definitions'', JObj [])]) \<noteq> Inl NoDefinition
   \<and> generatorArray insertion_sort \<lparr>checkRequired = False, exact = False\<rparr>
        (JObj [(''components'', JObj [(''schemas'', JObj [])])]) \<noteq> Inl NoDefinition"
  using generatorArray_no_definition [of "[]" insertion_sort "\<lparr>checkRequired = False, exact = False\<rparr>"]
    generatorArray_no_definition [of "[(''components'', JObj [(''securitySchemes'', JObj [])])]"
      insertion_sort "\<lparr>checkRequired = False, exact = False\<rparr>"]
    generatorArray_no_definition [of "[(''definitions'', JObj [])]" insertion_sort
      "\<lparr>checkRequired = False, exact = False\<rparr>"]
    generatorArray_no_definition [of "[(''components'', JObj [(''schemas'', JObj [])])]"
      insertion_sort "\<lparr>checkRequired = False, exact = False\<rparr>"]
  by simp

end
